theory Spec2Isabelle
  imports Complex_Main
begin

section \<open>Data model (src/types.ts)\<close>

text \<open>
  JavaScript numbers are modelled as \<^typ>\<open>real\<close>: prices, indicator values and the winrate
  are exact reals, so rounding, NaN and the infinities of IEEE doubles are outside the model.
  Epoch milliseconds and list lengths are integers. A value of type \<open>T | null\<close> is a
  \<^typ>\<open>'a option\<close>.
\<close>

record candle =
  time :: int
  open_c :: real
  high :: real
  low :: real
  close :: real
  volume :: real

datatype fractal = Top | Bottom

datatype trend = Up | Down | Neutral

record macd_result =
  macd_value :: "real option"
  macd_signal :: "real option"
  histogram :: "real option"

record indicators =
  rsi :: "real option"
  macd :: macd_result
  sma16 :: "real option"
  ind_fractal :: "fractal option"
  ind_trend :: trend

section \<open>Indicator engine (src/indicators.ts)\<close>

text \<open>
  \<open>calculateSMA\<close>: \<open>data.slice(-period)\<close> keeps the trailing \<open>period\<close> values and
  \<open>reduce((a, b) => a + b, 0)\<close> is a left fold from 0. Every caller passes a positive period.
\<close>

definition calculateSMA :: "real list \<Rightarrow> nat \<Rightarrow> real option" where
  "calculateSMA data period =
     (if length data < period then None
      else Some (foldl (+) 0 (drop (length data - period) data) / real period))"

text \<open>
  \<open>calculateEMA\<close>: without a previous value the seed is the mean of the first \<open>period\<close>
  values (\<open>data.slice(0, period)\<close>).
\<close>

definition calculateEMA :: "real list \<Rightarrow> nat \<Rightarrow> real option \<Rightarrow> real option" where
  "calculateEMA data period previousEMA =
     (if length data < period then None
      else let k = 2 / (real period + 1) in
        (case previousEMA of
           None \<Rightarrow> calculateSMA (take period data) period
         | Some prev \<Rightarrow> Some (last data * k + prev * (1 - k))))"

text \<open>
  \<open>calculateRSI\<close>: the first loop runs \<open>i = 1 .. period\<close> and accumulates gains and losses,
  the second runs \<open>i = period + 1 .. length - 1\<close> and smooths the two averages. Both read
  \<open>closes[i]\<close> and \<open>closes[i - 1]\<close> with \<open>i < length\<close>, which the guard ensures.
\<close>

definition rsi_seed :: "real list \<Rightarrow> nat \<Rightarrow> real \<times> real \<Rightarrow> real \<times> real" where
  "rsi_seed closes i acc =
     (let diff = closes ! i - closes ! (i - 1) in
      if diff \<ge> 0 then (fst acc + diff, snd acc) else (fst acc, snd acc - diff))"

definition rsi_smooth :: "real list \<Rightarrow> nat \<Rightarrow> nat \<Rightarrow> real \<times> real \<Rightarrow> real \<times> real" where
  "rsi_smooth closes period i acc =
     (let diff = closes ! i - closes ! (i - 1);
          gain = (if diff \<ge> 0 then diff else 0);
          loss = (if diff < 0 then - diff else 0)
      in ((fst acc * (real period - 1) + gain) / real period,
          (snd acc * (real period - 1) + loss) / real period))"

definition calculateRSI :: "real list \<Rightarrow> nat \<Rightarrow> real option" where
  "calculateRSI closes period =
     (if length closes \<le> period then None
      else let seeded = fold (rsi_seed closes) [1 ..< Suc period] (0, 0);
               avgs = fold (rsi_smooth closes period) [Suc period ..< length closes]
                        (fst seeded / real period, snd seeded / real period);
               avgGain = fst avgs;
               avgLoss = snd avgs
           in if avgLoss = 0 then Some 100
              else let rs = avgGain / avgLoss in Some (100 - 100 / (1 + rs)))"

definition calculateMACD :: "real list \<Rightarrow> macd_result" where
  "calculateMACD closes =
     (let result = \<lparr> macd_value = None, macd_signal = None, histogram = None \<rparr> in
      if length closes < 26 then result
      else (case (calculateEMA closes 12 None, calculateEMA closes 26 None) of
              (Some ema12, Some ema26) \<Rightarrow>
                (let macdValue = ema12 - ema26;
                     signal = macdValue * 0.2
                 in \<lparr> macd_value = Some macdValue, macd_signal = Some signal,
                      histogram = Some (macdValue - signal) \<rparr>)
            | _ \<Rightarrow> result))"

text \<open>
  \<open>detectTrend\<close> opens with \<open>if (!sma16 || closes.length < 2)\<close>. On a \<open>number | null\<close> the
  JavaScript negation \<open>!sma16\<close> is true for \<open>null\<close> and also for the number 0.
\<close>

definition js_falsy_num :: "real option \<Rightarrow> bool" where
  "js_falsy_num v = (case v of None \<Rightarrow> True | Some x \<Rightarrow> x = 0)"

definition detectTrend :: "real list \<Rightarrow> real option \<Rightarrow> trend" where
  "detectTrend closes sma =
     (if js_falsy_num sma \<or> length closes < 2 then Neutral
      else let lastClose = last closes in
        (case sma of
           None \<Rightarrow> Neutral
         | Some s \<Rightarrow> if lastClose > s then Up else if lastClose < s then Down else Neutral))"

definition detectFractal :: "candle list \<Rightarrow> fractal option" where
  "detectFractal candles =
     (if length candles < 5 then None
      else let i = length candles - 3;
               prev2 = candles ! (i - 2);
               prev1 = candles ! (i - 1);
               curr = candles ! i;
               next1 = candles ! (i + 1);
               next2 = candles ! (i + 2)
           in if high curr > high prev2 \<and> high curr > high prev1
                 \<and> high curr > high next1 \<and> high curr > high next2 then Some Top
              else if low curr < low prev2 \<and> low curr < low prev1
                 \<and> low curr < low next1 \<and> low curr < low next2 then Some Bottom
              else None)"

text \<open>
  The two five-bar patterns in the words of the specification: the candle at index \<open>i\<close>
  against its two predecessors and its two successors.
\<close>

definition highAboveNeighbours :: "candle list \<Rightarrow> nat \<Rightarrow> bool" where
  "highAboveNeighbours cs i =
     (high (cs ! (i - 2)) < high (cs ! i) \<and> high (cs ! (i - 1)) < high (cs ! i)
      \<and> high (cs ! (i + 1)) < high (cs ! i) \<and> high (cs ! (i + 2)) < high (cs ! i))"

definition lowBelowNeighbours :: "candle list \<Rightarrow> nat \<Rightarrow> bool" where
  "lowBelowNeighbours cs i =
     (low (cs ! i) < low (cs ! (i - 2)) \<and> low (cs ! i) < low (cs ! (i - 1))
      \<and> low (cs ! i) < low (cs ! (i + 1)) \<and> low (cs ! i) < low (cs ! (i + 2)))"

text \<open>A flat candle (open = high = low = close) and a candle with a given range.\<close>

definition flat :: "real \<Rightarrow> candle" where
  "flat p = \<lparr> time = 0, open_c = p, high = p, low = p, close = p, volume = 0 \<rparr>"

definition bar :: "real \<Rightarrow> real \<Rightarrow> real \<Rightarrow> candle" where
  "bar p h l = \<lparr> time = 0, open_c = p, high = h, low = l, close = p, volume = 0 \<rparr>"

section \<open>Signals, feedback and configuration (src/types.ts)\<close>

datatype direction = CALL | PUT | NEUTRAL

datatype strength = Weak | Medium | Strong | NoStrength

datatype confidence = Baixa | Media | Alta | MuitoAlta

datatype market_type = REAL | OTC | GERAL

datatype timeframe = M1 | M5

text \<open>
  Strings are byte lists; the accented letters of the Portuguese labels are written as
  their UTF-8 bytes, which keeps string equality as it is in the source.
\<close>

record signal_context =
  ctx_rsi :: "real option"
  ctx_macdHist :: "real option"
  ctx_trend :: string
  ctx_confluences :: "string list"

record signal =
  timestamp :: int
  asset :: string
  marketType :: market_type
  direction :: direction
  confluences :: "string list"
  strength :: strength
  confidence :: confidence
  winrate :: real
  price :: real
  entryTimestamp :: int
  entryTime :: string
  expiration :: string
  sig_context :: "signal_context option"

text \<open>
  A feedback record arrives as a JSON body and is stored as it came, so each of its fields
  may be missing: \<open>None\<close> is an absent (undefined or null) field. Field values that are
  not strings are outside the model.
\<close>

record feedback =
  f_asset :: "string option"
  f_direction :: "string option"
  f_result :: "string option"
  f_timestamp :: "int option"
  f_context :: "signal_context option"

record scanner_config =
  cfg_timeframe :: timeframe
  cfg_marketType :: market_type

record market_entry =
  md_candles :: "candle list"
  md_marketType :: market_type

record asset_entry =
  a_name :: string
  a_type :: market_type

text \<open>
  What one call reads from outside its arguments: the global \<open>marketData\<close> and
  \<open>feedbackHistory\<close>, the wall clock (\<open>new Date()\<close>, epoch milliseconds, read once per scan
  cycle), the local UTC offset in minutes that the date library applies, and the
  \<open>Math.random()\<close> draw made while the named asset is analysed.
\<close>

record env =
  marketData :: "string \<Rightarrow> market_entry option"
  feedbackHistory :: "feedback list"
  now :: int
  tzOffset :: int
  random :: "string \<Rightarrow> real"

section \<open>Clock arithmetic (date-fns)\<close>

text \<open>
  The date-fns functions the server imports, on epoch milliseconds, for a local offset of
  whole minutes: \<open>startOfMinute\<close> zeroes seconds and milliseconds, \<open>addMinutes\<close> adds
  60000 ms per minute, \<open>setSeconds\<close> replaces the seconds and keeps the milliseconds,
  \<open>getMinutes\<close> is the local minute of the hour, and \<open>format(d, 'HH:mm:ss')\<close> prints the
  local time of day with two digits per field.
\<close>

definition startOfMinute :: "int \<Rightarrow> int" where
  "startOfMinute t = t - t mod 60000"

definition addMinutes :: "int \<Rightarrow> int \<Rightarrow> int" where
  "addMinutes t n = t + n * 60000"

definition setSeconds :: "int \<Rightarrow> int \<Rightarrow> int" where
  "setSeconds t s = t - t mod 60000 + s * 1000 + t mod 1000"

definition getMinutes :: "int \<Rightarrow> int \<Rightarrow> int" where
  "getMinutes tz t = (t div 60000 + tz) mod 60"

definition two_digits :: "int \<Rightarrow> string" where
  "two_digits n = [''0123456789'' ! nat (n div 10 mod 10), ''0123456789'' ! nat (n mod 10)]"

definition format_HHmmss :: "int \<Rightarrow> int \<Rightarrow> string" where
  "format_HHmmss tz t =
     (let l = t + tz * 60000 in
      two_digits (l div 3600000 mod 24) @ '':'' @ two_digits (l div 60000 mod 60)
        @ '':'' @ two_digits (l div 1000 mod 60))"

text \<open>A time of day on the first epoch day, in milliseconds.\<close>

definition clock :: "int \<Rightarrow> int \<Rightarrow> int \<Rightarrow> int" where
  "clock h m s = ((h * 60 + m) * 60 + s) * 1000"

section \<open>Signal analyzer (server.ts, analyzeAsset)\<close>

definition getIndicators :: "candle list \<Rightarrow> indicators" where
  "getIndicators cs =
     (let closes = map close cs;
          r = calculateRSI closes 14;
          m = calculateMACD closes;
          s = calculateSMA closes 16
      in \<lparr> rsi = r, macd = m, sma16 = s,
           ind_fractal = detectFractal cs, ind_trend = detectTrend closes s \<rparr>)"

definition lbl_FractalFundo :: string where "lbl_FractalFundo = ''Fractal Fundo''"
definition lbl_RSIacima :: string where "lbl_RSIacima = ''RSI > 50''"
definition lbl_MACDPositivo :: string where "lbl_MACDPositivo = ''MACD Positivo''"
definition lbl_PrecoAcima :: string where
  "lbl_PrecoAcima = ''Pre'' @ [CHR 0xC3, CHR 0xA7] @ ''o > SMA16''"
definition lbl_TendenciaAlta :: string where
  "lbl_TendenciaAlta = ''Tend'' @ [CHR 0xC3, CHR 0xAA] @ ''ncia Alta''"
definition lbl_FractalTopo :: string where "lbl_FractalTopo = ''Fractal Topo''"
definition lbl_RSIabaixo :: string where "lbl_RSIabaixo = ''RSI < 50''"
definition lbl_MACDNegativo :: string where "lbl_MACDNegativo = ''MACD Negativo''"
definition lbl_PrecoAbaixo :: string where
  "lbl_PrecoAbaixo = ''Pre'' @ [CHR 0xC3, CHR 0xA7] @ ''o < SMA16''"
definition lbl_TendenciaBaixa :: string where
  "lbl_TendenciaBaixa = ''Tend'' @ [CHR 0xC3, CHR 0xAA] @ ''ncia Baixa''"

text \<open>
  The five buy rules and the five sell rules, each with the label it pushes, in the order of
  the source. \<open>lastCandle.close\<close> is read only behind \<open>sma16 !== null\<close>, that is on a window
  of at least 16 candles.
\<close>

definition buyRules :: "indicators \<Rightarrow> candle list \<Rightarrow> (bool \<times> string) list" where
  "buyRules ind cs =
     [ (ind_fractal ind = Some Bottom, lbl_FractalFundo),
       ((case rsi ind of None \<Rightarrow> False | Some r \<Rightarrow> r > 50), lbl_RSIacima),
       ((case histogram (macd ind) of None \<Rightarrow> False | Some h \<Rightarrow> h > 0), lbl_MACDPositivo),
       ((case sma16 ind of None \<Rightarrow> False | Some s \<Rightarrow> close (last cs) > s), lbl_PrecoAcima),
       (ind_trend ind = Up, lbl_TendenciaAlta) ]"

definition sellRules :: "indicators \<Rightarrow> candle list \<Rightarrow> (bool \<times> string) list" where
  "sellRules ind cs =
     [ (ind_fractal ind = Some Top, lbl_FractalTopo),
       ((case rsi ind of None \<Rightarrow> False | Some r \<Rightarrow> r < 50), lbl_RSIabaixo),
       ((case histogram (macd ind) of None \<Rightarrow> False | Some h \<Rightarrow> h < 0), lbl_MACDNegativo),
       ((case sma16 ind of None \<Rightarrow> False | Some s \<Rightarrow> close (last cs) < s), lbl_PrecoAbaixo),
       (ind_trend ind = Down, lbl_TendenciaBaixa) ]"

text \<open>\<open>if (flag) confluences.push(label)\<close>, rule after rule, on the array so far.\<close>

definition pushMatching :: "(bool \<times> string) list \<Rightarrow> string list \<Rightarrow> string list" where
  "pushMatching rules confl = confl @ map snd (filter fst rules)"

text \<open>
  The direction decision. The array \<open>confluences\<close> is declared once, before the buy rules,
  and the sell block pushes onto the same array.
\<close>

definition decideDirection :: "indicators \<Rightarrow> candle list \<Rightarrow> direction \<times> string list" where
  "decideDirection ind cs =
     (let buy = buyRules ind cs;
          afterBuy =
            (if list_ex fst buy
             then (let c = pushMatching buy [] in (if length c \<ge> 2 then CALL else NEUTRAL, c))
             else (NEUTRAL, []))
      in if fst afterBuy = NEUTRAL
         then (let sell = sellRules ind cs in
               if list_ex fst sell
               then (let c = pushMatching sell (snd afterBuy)
                     in (if length c \<ge> 2 then PUT else NEUTRAL, c))
               else afterBuy)
         else afterBuy)"

text \<open>The number of rules of one side that hold.\<close>

definition countHolding :: "(bool \<times> string) list \<Rightarrow> nat" where
  "countHolding rules = length (filter fst rules)"

definition direction_str :: "direction \<Rightarrow> string" where
  "direction_str d = (case d of CALL \<Rightarrow> ''CALL'' | PUT \<Rightarrow> ''PUT'' | NEUTRAL \<Rightarrow> ''NEUTRAL'')"

definition trend_str :: "trend \<Rightarrow> string" where
  "trend_str t = (case t of Up \<Rightarrow> ''up'' | Down \<Rightarrow> ''down'' | Neutral \<Rightarrow> ''neutral'')"

text \<open>
  The filter of \<open>similarLosses\<close>: same asset, result loss, same direction, a context, and
  the share of the recorded labels that occur among the current ones, over the longer of the
  two arrays, at least 0.7.
\<close>

definition overlapRatio :: "string list \<Rightarrow> string list \<Rightarrow> real" where
  "overlapRatio recorded current =
     real (length (filter (\<lambda>c. c \<in> set current) recorded))
       / real (max (length recorded) (length current))"

definition similarLoss :: "string \<Rightarrow> direction \<Rightarrow> string list \<Rightarrow> feedback \<Rightarrow> bool" where
  "similarLoss assetName dir confl f =
     (f_asset f = Some assetName \<and> f_result f = Some ''loss''
      \<and> f_direction f = Some (direction_str dir)
      \<and> (case f_context f of
            None \<Rightarrow> False
          | Some c \<Rightarrow> overlapRatio (ctx_confluences c) confl \<ge> 0.7))"

text \<open>
  The overlap in the words of the specification, on the two label sets:
  the size of the intersection over the larger of the two sizes.
\<close>

definition setOverlap :: "string list \<Rightarrow> string list \<Rightarrow> real" where
  "setOverlap A B =
     real (card (set A \<inter> set B)) / real (max (card (set A)) (card (set B)))"

definition lossPenalty :: "feedback list \<Rightarrow> string \<Rightarrow> direction \<Rightarrow> string list \<Rightarrow> real" where
  "lossPenalty hist assetName dir confl =
     (let similarLosses = filter (similarLoss assetName dir confl) hist in
      if length similarLosses > 0 then - real (length similarLosses) * 5 else 0)"

definition recentFeedback :: "feedback list \<Rightarrow> string \<Rightarrow> feedback list" where
  "recentFeedback hist assetName =
     (let own = filter (\<lambda>f. f_asset f = Some assetName) hist in drop (length own - 20) own)"

definition winrateAdjustment :: "feedback list \<Rightarrow> string \<Rightarrow> real" where
  "winrateAdjustment hist assetName =
     (let recent = recentFeedback hist assetName;
          losses = length (filter (\<lambda>f. f_result f = Some ''loss'') recent);
          wins = length (filter (\<lambda>f. f_result f = Some ''win'') recent)
      in if losses > wins then - (real losses - real wins) * 2
         else if wins > losses then (real wins - real losses) * 1
         else 0)"

definition entrySchedule :: "int \<Rightarrow> int \<Rightarrow> timeframe \<Rightarrow> int \<times> string" where
  "entrySchedule tz t tf =
     (if tf = M1 then (addMinutes (startOfMinute t) 2, ''1 min'')
      else let mins = getMinutes tz t;
               nextRound = \<lceil>(real_of_int mins + 1) / 5\<rceil> * 5
           in (setSeconds (startOfMinute (addMinutes t (nextRound - mins))) 0, ''5 min''))"

text \<open>The score before clamping, as the source adds it up.\<close>

definition rawWinrate :: "env \<Rightarrow> string \<Rightarrow> direction \<Rightarrow> string list \<Rightarrow> real" where
  "rawWinrate e assetName dir confl =
     75 + real (length confl) * 5 + random e assetName * 5
       + winrateAdjustment (feedbackHistory e) assetName
       + lossPenalty (feedbackHistory e) assetName dir confl"

definition confidenceOf :: "nat \<Rightarrow> confidence" where
  "confidenceOf n = (if n \<ge> 5 then MuitoAlta else if n = 4 then Alta else if n = 3 then Media else Baixa)"

definition strengthOf :: "nat \<Rightarrow> strength" where
  "strengthOf n = (if n \<ge> 4 then Strong else if n \<ge> 3 then Medium else Weak)"

definition analyzeAsset :: "env \<Rightarrow> string \<Rightarrow> scanner_config \<Rightarrow> signal option" where
  "analyzeAsset e assetName config =
     (case marketData e assetName of
        None \<Rightarrow> None
      | Some data \<Rightarrow>
          (let cs = md_candles data;
               ind = getIndicators cs;
               decided = decideDirection ind cs;
               dir = fst decided;
               confl = snd decided
           in if dir = NEUTRAL then None
              else let entry = entrySchedule (tzOffset e) (now e) (cfg_timeframe config);
                       w = rawWinrate e assetName dir confl
                   in Some \<lparr> timestamp = now e,
                             asset = assetName,
                             marketType = md_marketType data,
                             direction = dir,
                             confluences = confl,
                             strength = strengthOf (length confl),
                             confidence = confidenceOf (length confl),
                             winrate = max 0 (min w 100),
                             price = close (last cs),
                             entryTimestamp = fst entry,
                             entryTime = format_HHmmss (tzOffset e) (fst entry),
                             expiration = snd entry,
                             sig_context = Some \<lparr> ctx_rsi = rsi ind,
                                                   ctx_macdHist = histogram (macd ind),
                                               ctx_trend = trend_str (ind_trend ind),
                                               ctx_confluences = confl \<rparr> \<rparr>))"

section \<open>Scanner (server.ts, the SCAN\_MARKET handler)\<close>

datatype log_status = Analyzed | Discarded | Selected

text \<open>
  The reason of a log entry. The source writes Portuguese sentences: the asset was muted by
  the user, the market type was filtered, the winrate is insufficient (with the winrate
  printed to one decimal), the signal was already sent for this time slot, there is no
  minimum confluence. The model keeps which sentence it is, and the winrate unformatted.
\<close>

datatype log_reason =
    Silenciado
  | MercadoFiltrado
  | WinrateInsuficiente real
  | JaEnviado
  | SemConfluencia

record scan_log =
  log_time :: string
  log_asset :: string
  log_status :: log_status
  log_reason :: "log_reason option"

record last_signal_info =
  li_asset :: string
  li_entryTimestamp :: int

record scan_acc =
  logs :: "scan_log list"
  bestSignal :: "signal option"

definition ASSETS :: "asset_entry list" where
  "ASSETS =
     [ \<lparr> a_name = ''EURUSD'', a_type = REAL \<rparr>, \<lparr> a_name = ''GBPUSD'', a_type = REAL \<rparr>,
       \<lparr> a_name = ''USDJPY'', a_type = REAL \<rparr>, \<lparr> a_name = ''AUDUSD'', a_type = REAL \<rparr>,
       \<lparr> a_name = ''USDCAD'', a_type = REAL \<rparr>, \<lparr> a_name = ''EURJPY'', a_type = REAL \<rparr>,
       \<lparr> a_name = ''EURGBP'', a_type = REAL \<rparr>, \<lparr> a_name = ''GBPJPY'', a_type = REAL \<rparr>,
       \<lparr> a_name = ''AUDJPY'', a_type = REAL \<rparr>, \<lparr> a_name = ''NZDUSD'', a_type = REAL \<rparr>,
       \<lparr> a_name = ''EURUSD-OTC'', a_type = OTC \<rparr>, \<lparr> a_name = ''GBPUSD-OTC'', a_type = OTC \<rparr>,
       \<lparr> a_name = ''USDJPY-OTC'', a_type = OTC \<rparr>, \<lparr> a_name = ''AUDCAD-OTC'', a_type = OTC \<rparr>,
       \<lparr> a_name = ''EURGBP-OTC'', a_type = OTC \<rparr>, \<lparr> a_name = ''USDCHF-OTC'', a_type = OTC \<rparr>,
       \<lparr> a_name = ''NZDUSD-OTC'', a_type = OTC \<rparr>, \<lparr> a_name = ''AUDUSD-OTC'', a_type = OTC \<rparr>,
       \<lparr> a_name = ''GBPJPY-OTC'', a_type = OTC \<rparr>, \<lparr> a_name = ''EURJPY-OTC'', a_type = OTC \<rparr>,
       \<lparr> a_name = ''CADJPY-OTC'', a_type = OTC \<rparr>, \<lparr> a_name = ''CHFJPY-OTC'', a_type = OTC \<rparr>,
       \<lparr> a_name = ''AUDNZD-OTC'', a_type = OTC \<rparr>, \<lparr> a_name = ''EURCAD-OTC'', a_type = OTC \<rparr>,
       \<lparr> a_name = ''GBPCAD-OTC'', a_type = OTC \<rparr>,
       \<lparr> a_name = ''BTCUSD'', a_type = REAL \<rparr>, \<lparr> a_name = ''ETHUSD'', a_type = REAL \<rparr>,
       \<lparr> a_name = ''SOLUSD'', a_type = REAL \<rparr>, \<lparr> a_name = ''XRPUSD'', a_type = REAL \<rparr>,
       \<lparr> a_name = ''ADAUSD'', a_type = REAL \<rparr>, \<lparr> a_name = ''DOGEUSD'', a_type = REAL \<rparr>,
       \<lparr> a_name = ''DOTUSD'', a_type = REAL \<rparr>,
       \<lparr> a_name = ''BTCUSD-OTC'', a_type = OTC \<rparr>, \<lparr> a_name = ''ETHUSD-OTC'', a_type = OTC \<rparr>,
       \<lparr> a_name = ''LTCUSD-OTC'', a_type = OTC \<rparr> ]"

definition logEntry :: "env \<Rightarrow> string \<Rightarrow> log_status \<Rightarrow> log_reason option \<Rightarrow> scan_log" where
  "logEntry e a st r =
     \<lparr> log_time = format_HHmmss (tzOffset e) (now e), log_asset = a,
       log_status = st, log_reason = r \<rparr>"

definition pushLog :: "scan_log \<Rightarrow> scan_acc \<Rightarrow> scan_acc" where
  "pushLog l acc = acc \<lparr> logs := logs acc @ [l] \<rparr>"

text \<open>
  \<open>lastSignalInfo && signal.asset === lastSignalInfo.asset &&
  signal.entryTimestamp === lastSignalInfo.entryTimestamp\<close>
\<close>

definition alreadySent :: "last_signal_info option \<Rightarrow> signal \<Rightarrow> bool" where
  "alreadySent lastInfo s =
     (case lastInfo of
        None \<Rightarrow> False
      | Some li \<Rightarrow> asset s = li_asset li \<and> entryTimestamp s = li_entryTimestamp li)"

text \<open>\<open>if (!bestSignal || signal.winrate > bestSignal.winrate) bestSignal = signal\<close>\<close>

definition keepBetter :: "signal option \<Rightarrow> signal \<Rightarrow> signal option" where
  "keepBetter best s =
     (case best of
        None \<Rightarrow> Some s
      | Some b \<Rightarrow> if winrate s > winrate b then Some s else Some b)"

text \<open>The body of \<open>ASSETS.forEach\<close>: one instrument, on the logs and the best signal so far.\<close>

definition scanAsset ::
  "env \<Rightarrow> scanner_config \<Rightarrow> string list \<Rightarrow> last_signal_info option
     \<Rightarrow> asset_entry \<Rightarrow> scan_acc \<Rightarrow> scan_acc" where
  "scanAsset e config mutedList lastInfo a acc =
     (if a_name a \<in> set mutedList
        then pushLog (logEntry e (a_name a) Discarded (Some Silenciado)) acc
      else if cfg_marketType config \<noteq> GERAL \<and> a_type a \<noteq> cfg_marketType config
        then pushLog (logEntry e (a_name a) Discarded (Some MercadoFiltrado)) acc
      else (case analyzeAsset e (a_name a) config of
              Some s \<Rightarrow>
                if winrate s < 90
                  then pushLog (logEntry e (a_name a) Discarded
                                  (Some (WinrateInsuficiente (winrate s)))) acc
                else if alreadySent lastInfo s
                  then pushLog (logEntry e (a_name a) Discarded (Some JaEnviado)) acc
                else (let acc' = pushLog (logEntry e (a_name a) Analyzed None) acc
                      in acc' \<lparr> bestSignal := keepBetter (bestSignal acc') s \<rparr>)
            | None \<Rightarrow> pushLog (logEntry e (a_name a) Discarded (Some SemConfluencia)) acc))"

definition scanLoop ::
  "env \<Rightarrow> scanner_config \<Rightarrow> string list \<Rightarrow> last_signal_info option
     \<Rightarrow> asset_entry list \<Rightarrow> scan_acc" where
  "scanLoop e config mutedList lastInfo assets =
     fold (scanAsset e config mutedList lastInfo) assets \<lparr> logs = [], bestSignal = None \<rparr>"

text \<open>
  One scan cycle over a list of instruments: the loop, then the update of the session's
  \<open>lastSignalInfo\<close> and the Selected entry. The result is the new \<open>lastSignalInfo\<close> and
  what is sent back.
\<close>

definition scanMarket ::
  "env \<Rightarrow> asset_entry list \<Rightarrow> scanner_config \<Rightarrow> string list \<Rightarrow> last_signal_info option
     \<Rightarrow> last_signal_info option \<times> scan_acc" where
  "scanMarket e assets config mutedList lastInfo =
     (let acc = scanLoop e config mutedList lastInfo assets in
      case bestSignal acc of
        Some b \<Rightarrow>
          (Some \<lparr> li_asset = asset b, li_entryTimestamp = entryTimestamp b \<rparr>,
           pushLog (logEntry e (asset b) Selected None) acc)
      | None \<Rightarrow> (lastInfo, acc))"

text \<open>
  The message handler of one connection: only a message of type SCAN\_MARKET is answered;
  a missing \<open>mutedAssets\<close> is the empty list.
\<close>

record ws_message =
  msg_type :: string
  msg_config :: scanner_config
  msg_mutedAssets :: "string list option"

definition onMessage ::
  "env \<Rightarrow> last_signal_info option \<Rightarrow> ws_message
     \<Rightarrow> last_signal_info option \<times> scan_acc option" where
  "onMessage e lastInfo m =
     (if msg_type m = ''SCAN_MARKET''
      then (let r = scanMarket e ASSETS (msg_config m)
                      (case msg_mutedAssets m of None \<Rightarrow> [] | Some l \<Rightarrow> l) lastInfo
            in (fst r, Some (snd r)))
      else (lastInfo, None))"

text \<open>
  The instruments that pass every filter of the loop, in enumeration order, each with the
  signal \<open>analyzeAsset\<close> returns for it.
\<close>

definition candidate ::
  "env \<Rightarrow> scanner_config \<Rightarrow> string list \<Rightarrow> last_signal_info option
     \<Rightarrow> asset_entry \<Rightarrow> signal option" where
  "candidate e config mutedList lastInfo a =
     (if a_name a \<in> set mutedList then None
      else if cfg_marketType config \<noteq> GERAL \<and> a_type a \<noteq> cfg_marketType config then None
      else (case analyzeAsset e (a_name a) config of
              None \<Rightarrow> None
            | Some s \<Rightarrow> if winrate s < 90 \<or> alreadySent lastInfo s then None else Some s))"

definition candidates ::
  "env \<Rightarrow> scanner_config \<Rightarrow> string list \<Rightarrow> last_signal_info option
     \<Rightarrow> asset_entry list \<Rightarrow> signal list" where
  "candidates e config mutedList lastInfo assets =
     List.map_filter (candidate e config mutedList lastInfo) assets"

text \<open>
  The selection in the words of the specification: the first candidate, in enumeration
  order, whose winrate no candidate exceeds.
\<close>

definition firstMax :: "signal list \<Rightarrow> signal option" where
  "firstMax cs = find (\<lambda>s. \<forall>t \<in> set cs. winrate t \<le> winrate s) cs"

text \<open>The one log entry the loop writes for an instrument.\<close>

definition dispositionLog ::
  "env \<Rightarrow> scanner_config \<Rightarrow> string list \<Rightarrow> last_signal_info option
     \<Rightarrow> asset_entry \<Rightarrow> scan_log" where
  "dispositionLog e config mutedList lastInfo a =
     (if a_name a \<in> set mutedList then logEntry e (a_name a) Discarded (Some Silenciado)
      else if cfg_marketType config \<noteq> GERAL \<and> a_type a \<noteq> cfg_marketType config
        then logEntry e (a_name a) Discarded (Some MercadoFiltrado)
      else (case analyzeAsset e (a_name a) config of
              None \<Rightarrow> logEntry e (a_name a) Discarded (Some SemConfluencia)
            | Some s \<Rightarrow>
                if winrate s < 90
                  then logEntry e (a_name a) Discarded (Some (WinrateInsuficiente (winrate s)))
                else if alreadySent lastInfo s
                  then logEntry e (a_name a) Discarded (Some JaEnviado)
                else logEntry e (a_name a) Analyzed None))"

section \<open>Feedback endpoint (server.ts, POST /api/feedback)\<close>

text \<open>
  \<open>!feedback.asset\<close> on a string field: true when the field is absent and when it is the
  empty string.
\<close>

definition js_falsy_str :: "string option \<Rightarrow> bool" where
  "js_falsy_str v = (case v of None \<Rightarrow> True | Some x \<Rightarrow> x = [])"

datatype response_body = ErrorBody string | OkBody nat

record http_response =
  statusCode :: nat
  body :: response_body

text \<open>
  The handler on the in-memory history: the response and the history afterwards. Writing
  the history to the file and the console line are left out.
\<close>

definition postFeedback ::
  "int \<Rightarrow> feedback \<Rightarrow> feedback list \<Rightarrow> http_response \<times> feedback list" where
  "postFeedback t fb hist =
     (if js_falsy_str (f_asset fb) \<or> js_falsy_str (f_result fb)
      then (\<lparr> statusCode = 400, body = ErrorBody ''Invalid feedback'' \<rparr>, hist)
      else (let hist' = hist @ [fb \<lparr> f_timestamp := Some t \<rparr>]
            in (\<lparr> statusCode = 200, body = OkBody (length hist') \<rparr>, hist')))"

section \<open>Concrete inputs\<close>

text \<open>Five-candle windows: highs 1, 2, 5, 2, 1; lows 5, 4, 1, 4, 5; a rising window; and a
  window whose middle candle has both the highest high and the lowest low.\<close>

definition topWindow :: "candle list" where
  "topWindow = [bar 1 1 1, bar 1 2 1, bar 1 5 1, bar 1 2 1, bar 1 1 1]"

definition bottomWindow :: "candle list" where
  "bottomWindow = [bar 5 5 5, bar 4 4 4, bar 1 1 1, bar 4 4 4, bar 5 5 5]"

definition risingFive :: "candle list" where
  "risingFive = [flat 1, flat 2, flat 3, flat 4, flat 5]"

definition outsideWindow :: "candle list" where
  "outsideWindow = [flat 1, flat 1, bar 1 5 0, flat 1, flat 1]"

text \<open>
  A window of 16 flat candles closing at 1, 2, ..., 16 (RSI 100, last close above the
  16-period mean 8.5, trend up: three buy rules hold), and a window of 15 flat candles at 1
  whose candle three from the end reaches 2 (RSI 100 is the one buy rule that holds, the top
  fractal the one sell rule).
\<close>

definition risingWindow :: "candle list" where
  "risingWindow = [flat 1, flat 2, flat 3, flat 4, flat 5, flat 6, flat 7, flat 8,
     flat 9, flat 10, flat 11, flat 12, flat 13, flat 14, flat 15, flat 16]"

definition mixedWindow :: "candle list" where
  "mixedWindow = [flat 1, flat 1, flat 1, flat 1, flat 1, flat 1, flat 1, flat 1,
     flat 1, flat 1, flat 1, flat 1, bar 1 2 1, flat 1, flat 1]"

definition winRecord :: "string \<Rightarrow> feedback" where
  "winRecord a = \<lparr> f_asset = Some a, f_direction = Some ''CALL'', f_result = Some ''win'',
                   f_timestamp = Some 0, f_context = None \<rparr>"

text \<open>
  Two instruments on the rising window at 10:07:30 UTC. EURUSD draws 0.2 and scores
  75 + 15 + 1 = 91; GBPUSD draws 0.8 and has one recorded win, 75 + 15 + 4 + 1 = 95.
\<close>

definition exampleEnv :: env where
  "exampleEnv =
     \<lparr> marketData = (\<lambda>a. if a = ''EURUSD'' \<or> a = ''GBPUSD''
                          then Some \<lparr> md_candles = risingWindow, md_marketType = REAL \<rparr>
                          else None),
       feedbackHistory = [winRecord ''GBPUSD''],
       now = clock 10 7 30,
       tzOffset = 0,
       random = (\<lambda>a. if a = ''EURUSD'' then 0.2 else 0.8) \<rparr>"

definition mixedEnv :: env where
  "mixedEnv =
     \<lparr> marketData = (\<lambda>a. if a = ''EURUSD''
                          then Some \<lparr> md_candles = mixedWindow, md_marketType = REAL \<rparr>
                          else None),
       feedbackHistory = [],
       now = clock 10 7 30,
       tzOffset = 0,
       random = (\<lambda>a. 0) \<rparr>"

definition configM1 :: scanner_config where
  "configM1 = \<lparr> cfg_timeframe = M1, cfg_marketType = GERAL \<rparr>"

definition configM5 :: scanner_config where
  "configM5 = \<lparr> cfg_timeframe = M5, cfg_marketType = GERAL \<rparr>"

definition EURUSD :: asset_entry where
  "EURUSD = \<lparr> a_name = ''EURUSD'', a_type = REAL \<rparr>"

definition GBPUSD :: asset_entry where
  "GBPUSD = \<lparr> a_name = ''GBPUSD'', a_type = REAL \<rparr>"

text \<open>
  EURUSD on the rising window after twenty recorded wins, and a recorded CALL loss on EURUSD
  whose context holds the three labels of the rising window.
\<close>

definition streakEnv :: env where
  "streakEnv =
     \<lparr> marketData = (\<lambda>a. if a = ''EURUSD''
                          then Some \<lparr> md_candles = risingWindow, md_marketType = REAL \<rparr>
                          else None),
       feedbackHistory = replicate 20 (winRecord ''EURUSD''),
       now = clock 10 7 30,
       tzOffset = 0,
       random = (\<lambda>a. 0) \<rparr>"

definition lossRecord :: feedback where
  "lossRecord =
     \<lparr> f_asset = Some ''EURUSD'', f_direction = Some ''CALL'', f_result = Some ''loss'',
       f_timestamp = Some 0,
       f_context = Some \<lparr> ctx_rsi = Some 100, ctx_macdHist = None, ctx_trend = ''up'',
                           ctx_confluences = [lbl_RSIacima, lbl_PrecoAcima, lbl_TendenciaAlta] \<rparr> \<rparr>"

text \<open>A feedback body with an asset and the result "draw".\<close>

definition drawBody :: feedback where
  "drawBody =
     \<lparr> f_asset = Some ''EURUSD'', f_direction = Some ''CALL'', f_result = Some ''draw'',
       f_timestamp = None, f_context = None \<rparr>"

section \<open>Indicator engine: properties\<close>

lemma detectFractal_short: "length candles < 5 \<Longrightarrow> detectFractal candles = None"
  by (simp add: detectFractal_def)

lemma detectFractal_Top_iff:
  "5 \<le> length candles \<Longrightarrow>
   detectFractal candles = Some Top \<longleftrightarrow> highAboveNeighbours candles (length candles - 3)"
  by (simp add: detectFractal_def highAboveNeighbours_def Let_def)

lemma detectFractal_Bottom_iff:
  "5 \<le> length candles \<Longrightarrow>
   detectFractal candles = Some Bottom \<longleftrightarrow>
     lowBelowNeighbours candles (length candles - 3)
     \<and> \<not> highAboveNeighbours candles (length candles - 3)"
  by (simp add: detectFractal_def highAboveNeighbours_def lowBelowNeighbours_def Let_def)

lemma detectFractal_None_iff:
  "5 \<le> length candles \<Longrightarrow>
   detectFractal candles = None \<longleftrightarrow>
     \<not> lowBelowNeighbours candles (length candles - 3)
     \<and> \<not> highAboveNeighbours candles (length candles - 3)"
  by (simp add: detectFractal_def highAboveNeighbours_def lowBelowNeighbours_def Let_def)

lemma sorted_no_peak:
  assumes "sorted xs" and "Suc i < length xs"
  shows "\<not> xs ! Suc i < (xs ! i :: real)"
proof -
  have "xs ! i \<le> xs ! Suc i"
    using assms by (simp add: sorted_iff_nth_mono)
  then show ?thesis by simp
qed

lemma sorted_rev_no_peak:
  assumes "sorted (rev xs)" and "Suc i < length xs"
  shows "\<not> xs ! i < (xs ! Suc i :: real)"
proof -
  have "xs ! Suc i \<le> xs ! i"
    using assms by (simp add: sorted_rev_iff_nth_mono)
  then show ?thesis by simp
qed

lemma monotonic_highs_no_top:
  assumes len: "5 \<le> length cs"
    and mono: "sorted (map high cs) \<or> sorted (rev (map high cs))"
  shows "\<not> highAboveNeighbours cs (length cs - 3)"
proof -
  define i where "i = length cs - 3"
  have i: "Suc i < length cs" "Suc (i - 1) = i" "i - 1 < length cs" "i < length cs"
    using len by (simp_all add: i_def)
  from mono show ?thesis
  proof
    assume "sorted (map high cs)"
    from sorted_no_peak [OF this, of i] i
    have "\<not> high (cs ! Suc i) < high (cs ! i)" by simp
    then show ?thesis by (simp add: highAboveNeighbours_def i_def)
  next
    assume "sorted (rev (map high cs))"
    from sorted_rev_no_peak [OF this, of "i - 1"] i
    have "\<not> high (cs ! (i - 1)) < high (cs ! i)" by simp
    then show ?thesis by (simp add: highAboveNeighbours_def i_def)
  qed
qed

lemma monotonic_lows_no_bottom:
  assumes len: "5 \<le> length cs"
    and mono: "sorted (map low cs) \<or> sorted (rev (map low cs))"
  shows "\<not> lowBelowNeighbours cs (length cs - 3)"
proof -
  define i where "i = length cs - 3"
  have i: "Suc i < length cs" "Suc (i - 1) = i" "i - 1 < length cs" "i < length cs"
    using len by (simp_all add: i_def)
  from mono show ?thesis
  proof
    assume "sorted (map low cs)"
    from sorted_no_peak [OF this, of "i - 1"] i
    have "\<not> low (cs ! i) < low (cs ! (i - 1))" by simp
    then show ?thesis by (simp add: lowBelowNeighbours_def i_def)
  next
    assume "sorted (rev (map low cs))"
    from sorted_rev_no_peak [OF this, of i] i
    have "\<not> low (cs ! i) < low (cs ! Suc i)" by simp
    then show ?thesis by (simp add: lowBelowNeighbours_def i_def)
  qed
qed

lemma highs_example_top:
  assumes "map high cs = [1, 2, 5, 2, 1]"
  shows "detectFractal cs = Some Top"
proof -
  have "length (map high cs) = 5" using assms by simp
  then have len: "length cs = 5" by simp
  have "high (cs ! 0) = map high cs ! 0" "high (cs ! 1) = map high cs ! 1"
       "high (cs ! 2) = map high cs ! 2" "high (cs ! 3) = map high cs ! 3"
       "high (cs ! 4) = map high cs ! 4"
    using len by simp_all
  then have h: "high (cs ! 0) = 1" "high (cs ! 1) = 2" "high (cs ! 2) = 5"
               "high (cs ! 3) = 2" "high (cs ! 4) = 1"
    unfolding assms by simp_all
  have "highAboveNeighbours cs 2"
    using h by (simp add: highAboveNeighbours_def)
  then show ?thesis
    using len by (simp add: detectFractal_Top_iff)
qed

lemma lows_example_bottom:
  assumes "map low cs = [5, 4, 1, 4, 5]" and "\<not> highAboveNeighbours cs 2"
  shows "detectFractal cs = Some Bottom"
proof -
  have "length (map low cs) = 5" using assms(1) by simp
  then have len: "length cs = 5" by simp
  have "low (cs ! 0) = map low cs ! 0" "low (cs ! 1) = map low cs ! 1"
       "low (cs ! 2) = map low cs ! 2" "low (cs ! 3) = map low cs ! 3"
       "low (cs ! 4) = map low cs ! 4"
    using len by simp_all
  then have l: "low (cs ! 0) = 5" "low (cs ! 1) = 4" "low (cs ! 2) = 1"
               "low (cs ! 3) = 4" "low (cs ! 4) = 5"
    unfolding assms(1) by simp_all
  have "lowBelowNeighbours cs 2"
    using l by (simp add: lowBelowNeighbours_def)
  then show ?thesis
    using len assms(2) by (simp add: detectFractal_Bottom_iff)
qed

text \<open>
  C8 (as amended). \<open>detectFractal\<close> returns absent on fewer than 5 candles. On at least 5 it
  classifies the candle three positions from the end: top iff its high is strictly above
  the highs of its two predecessors and two successors; bottom iff its low is strictly below
  those four lows and the top pattern does not hold as well (the top test comes first);
  absent iff neither pattern holds. A window with highs 1, 2, 5, 2, 1 gives top; lows
  5, 4, 1, 4, 5 give bottom when the highs form no top; monotonic highs and lows give absent.
\<close>

theorem detectFractal_classification:
  "(length cs < 5 \<longrightarrow> detectFractal cs = None)
   \<and> (5 \<le> length cs \<longrightarrow>
        (detectFractal cs = Some Top \<longleftrightarrow> highAboveNeighbours cs (length cs - 3))
      \<and> (detectFractal cs = Some Bottom \<longleftrightarrow>
           lowBelowNeighbours cs (length cs - 3) \<and> \<not> highAboveNeighbours cs (length cs - 3))
      \<and> (detectFractal cs = None \<longleftrightarrow>
           \<not> highAboveNeighbours cs (length cs - 3) \<and> \<not> lowBelowNeighbours cs (length cs - 3)))
   \<and> (map high cs = [1, 2, 5, 2, 1] \<longrightarrow> detectFractal cs = Some Top)
   \<and> (map low cs = [5, 4, 1, 4, 5] \<and> \<not> highAboveNeighbours cs 2 \<longrightarrow>
        detectFractal cs = Some Bottom)
   \<and> (5 \<le> length cs \<and> (sorted (map high cs) \<or> sorted (rev (map high cs)))
        \<and> (sorted (map low cs) \<or> sorted (rev (map low cs))) \<longrightarrow> detectFractal cs = None)"
proof (intro conjI impI)
  assume "length cs < 5"
  then show "detectFractal cs = None" by (rule detectFractal_short)
next
  assume "5 \<le> length cs"
  then show "detectFractal cs = Some Top \<longleftrightarrow> highAboveNeighbours cs (length cs - 3)"
    by (rule detectFractal_Top_iff)
next
  assume "5 \<le> length cs"
  then show "detectFractal cs = Some Bottom \<longleftrightarrow>
      lowBelowNeighbours cs (length cs - 3) \<and> \<not> highAboveNeighbours cs (length cs - 3)"
    by (rule detectFractal_Bottom_iff)
next
  assume "5 \<le> length cs"
  then show "detectFractal cs = None \<longleftrightarrow>
      \<not> highAboveNeighbours cs (length cs - 3) \<and> \<not> lowBelowNeighbours cs (length cs - 3)"
    by (auto simp: detectFractal_None_iff)
next
  assume "map high cs = [1, 2, 5, 2, 1]"
  then show "detectFractal cs = Some Top" by (rule highs_example_top)
next
  assume "map low cs = [5, 4, 1, 4, 5] \<and> \<not> highAboveNeighbours cs 2"
  then show "detectFractal cs = Some Bottom" by (simp add: lows_example_bottom)
next
  assume a: "5 \<le> length cs \<and> (sorted (map high cs) \<or> sorted (rev (map high cs)))
        \<and> (sorted (map low cs) \<or> sorted (rev (map low cs)))"
  then show "detectFractal cs = None"
    using monotonic_highs_no_top [of cs] monotonic_lows_no_bottom [of cs]
    by (simp add: detectFractal_None_iff)
qed

theorem detectFractal_classification_witness:
  "detectFractal topWindow = Some Top
   \<and> detectFractal bottomWindow = Some Bottom
   \<and> detectFractal risingFive = None
   \<and> detectFractal (take 4 risingFive) = None"
proof -
  have top: "map high topWindow = [1, 2, 5, 2, 1]"
    by (simp add: topWindow_def bar_def)
  have bot: "map low bottomWindow = [5, 4, 1, 4, 5] \<and> \<not> highAboveNeighbours bottomWindow 2"
    by (simp add: bottomWindow_def bar_def highAboveNeighbours_def)
  have mono: "5 \<le> length risingFive
      \<and> (sorted (map high risingFive) \<or> sorted (rev (map high risingFive)))
      \<and> (sorted (map low risingFive) \<or> sorted (rev (map low risingFive)))"
    by (simp add: risingFive_def flat_def)
  have short: "length (take 4 risingFive) < 5" by simp
  have "detectFractal topWindow = Some Top"
    by (rule detectFractal_classification
        [of topWindow, THEN conjunct2, THEN conjunct2, THEN conjunct1, THEN mp, OF top])
  moreover have "detectFractal bottomWindow = Some Bottom"
    by (rule detectFractal_classification
        [of bottomWindow, THEN conjunct2, THEN conjunct2, THEN conjunct2, THEN conjunct1,
          THEN mp, OF bot])
  moreover have "detectFractal risingFive = None"
    by (rule detectFractal_classification
        [of risingFive, THEN conjunct2, THEN conjunct2, THEN conjunct2, THEN conjunct2,
          THEN mp, OF mono])
  moreover have "detectFractal (take 4 risingFive) = None"
    by (rule detectFractal_classification
        [of "take 4 risingFive", THEN conjunct1, THEN mp, OF short])
  ultimately show ?thesis by (intro conjI)
qed

text \<open>
  C8 as stated fails: the spec says the two patterns can never hold for the same candle and
  that bottom is returned iff the low pattern holds. On \<open>outsideWindow\<close> the middle candle has
  high 5 and low 0 among flat candles at 1: both patterns hold, and the result is top.
\<close>

theorem detectFractal_both_patterns:
  "highAboveNeighbours outsideWindow (length outsideWindow - 3)
   \<and> lowBelowNeighbours outsideWindow (length outsideWindow - 3)
   \<and> detectFractal outsideWindow \<noteq> Some Bottom
   \<and> detectFractal outsideWindow = Some Top"
  by (simp add: outsideWindow_def flat_def bar_def highAboveNeighbours_def
      lowBelowNeighbours_def detectFractal_def)

lemma detectTrend_nonzero:
  assumes "s \<noteq> 0" and "2 \<le> length closes"
  shows "detectTrend closes (Some s) =
           (if last closes > s then Up else if last closes < s then Down else Neutral)"
  using assms by (simp add: detectTrend_def js_falsy_num_def)

lemma detectTrend_absent: "detectTrend closes None = Neutral"
  by (simp add: detectTrend_def js_falsy_num_def)

lemma detectTrend_short: "length closes < 2 \<Longrightarrow> detectTrend closes sma = Neutral"
  by (simp add: detectTrend_def)

text \<open>
  C9 at the input where the code departs from it: sma16 is present with value 0 and the last
  close 1 is strictly greater, yet the result is neutral, because \<open>!sma16\<close> also holds for 0.
\<close>

theorem detectTrend_zero_sma:
  "length [1, 1 :: real] = 2 \<and> last [1, 1 :: real] > 0
   \<and> detectTrend [1, 1] (Some 0) = Neutral"
  by (simp add: detectTrend_def js_falsy_num_def)

section \<open>Signal analyzer: properties\<close>

lemma list_ex_fst_iff: "list_ex fst rules \<longleftrightarrow> 0 < countHolding rules"
  by (induction rules) (auto simp: countHolding_def)

lemma decideDirection_cases:
  "decideDirection ind cs =
     (if 2 \<le> countHolding (buyRules ind cs)
        then (CALL, map snd (filter fst (buyRules ind cs)))
      else if 1 \<le> countHolding (sellRules ind cs)
              \<and> 2 \<le> countHolding (buyRules ind cs) + countHolding (sellRules ind cs)
        then (PUT, map snd (filter fst (buyRules ind cs))
                     @ map snd (filter fst (sellRules ind cs)))
      else (NEUTRAL, map snd (filter fst (buyRules ind cs))
                       @ map snd (filter fst (sellRules ind cs))))"
  by (auto simp: decideDirection_def list_ex_fst_iff pushMatching_def Let_def countHolding_def)

lemma decideDirection_not_neutral:
  "fst (decideDirection ind cs) \<noteq> NEUTRAL \<Longrightarrow> 2 \<le> length (snd (decideDirection ind cs))"
  by (simp add: decideDirection_cases countHolding_def split: if_splits)

lemma analyzeAsset_SomeD:
  assumes "analyzeAsset e a config = Some s"
  shows "\<exists>data. marketData e a = Some data
           \<and> decideDirection (getIndicators (md_candles data)) (md_candles data)
               = (direction s, confluences s)"
    and "direction s \<noteq> NEUTRAL"
    and "asset s = a"
    and "winrate s = max 0 (min (rawWinrate e a (direction s) (confluences s)) 100)"
    and "strength s = strengthOf (length (confluences s))"
    and "entryTimestamp s = fst (entrySchedule (tzOffset e) (now e) (cfg_timeframe config))"
    and "expiration s = snd (entrySchedule (tzOffset e) (now e) (cfg_timeframe config))"
    and "entryTime s = format_HHmmss (tzOffset e) (entryTimestamp s)"
  using assms
  by (auto simp: analyzeAsset_def Let_def split: option.splits if_splits)

text \<open>
  A window of fewer than 5 candles gives no signal, so \<open>lastCandle.close\<close> in the
  returned signal is always read from a non-empty window.
\<close>

lemma getIndicators_short:
  assumes "length cs < 5"
  shows "getIndicators cs =
     \<lparr> rsi = None,
       macd = \<lparr> macd_value = None, macd_signal = None, histogram = None \<rparr>,
       sma16 = None, ind_fractal = None, ind_trend = Neutral \<rparr>"
  using assms
  by (simp add: getIndicators_def calculateRSI_def calculateMACD_def calculateSMA_def
      detectFractal_def detectTrend_def js_falsy_num_def Let_def)

lemma short_window_no_signal:
  assumes "marketData e a = Some data" and "length (md_candles data) < 5"
  shows "analyzeAsset e a config = None"
proof -
  have "decideDirection (getIndicators (md_candles data)) (md_candles data) = (NEUTRAL, [])"
    unfolding getIndicators_short [OF assms(2)]
    by (simp add: decideDirection_def buyRules_def sellRules_def pushMatching_def)
  then show ?thesis
    by (simp add: analyzeAsset_def assms(1) Let_def)
qed

lemma analyzeAsset_reads_last_candle:
  assumes "analyzeAsset e a config = Some s"
  shows "\<exists>data. marketData e a = Some data \<and> md_candles data \<noteq> []
           \<and> price s = close (last (md_candles data))"
proof -
  from assms obtain data where d: "marketData e a = Some data"
    by (auto simp: analyzeAsset_def split: option.splits)
  have "\<not> length (md_candles data) < 5"
    using short_window_no_signal [OF d, of config] assms by auto
  then have "md_candles data \<noteq> []" by auto
  moreover have "price s = close (last (md_candles data))"
    using assms d by (auto simp: analyzeAsset_def Let_def split: if_splits)
  ultimately show ?thesis using d by blast
qed

text \<open>The indicators and the decision on the two concrete windows.\<close>

lemma rsi_mixedWindow: "calculateRSI (map close mixedWindow) 14 = Some 100"
  by (simp add: calculateRSI_def mixedWindow_def flat_def bar_def rsi_seed_def upt_rec Let_def)

lemma rsi_risingWindow: "calculateRSI (map close risingWindow) 14 = Some 100"
  by (simp add: calculateRSI_def risingWindow_def flat_def rsi_seed_def rsi_smooth_def
      upt_rec Let_def)

lemma getIndicators_mixedWindow:
  "getIndicators mixedWindow =
     \<lparr> rsi = Some 100,
       macd = \<lparr> macd_value = None, macd_signal = None, histogram = None \<rparr>,
       sma16 = None, ind_fractal = Some Top, ind_trend = Neutral \<rparr>"
  unfolding getIndicators_def Let_def rsi_mixedWindow
  by (simp add: mixedWindow_def flat_def bar_def calculateMACD_def calculateSMA_def
      detectFractal_def detectTrend_def js_falsy_num_def)

lemma getIndicators_risingWindow:
  "getIndicators risingWindow =
     \<lparr> rsi = Some 100,
       macd = \<lparr> macd_value = None, macd_signal = None, histogram = None \<rparr>,
       sma16 = Some (17 / 2), ind_fractal = None, ind_trend = Up \<rparr>"
  unfolding getIndicators_def Let_def rsi_risingWindow
  by (simp add: risingWindow_def flat_def calculateMACD_def calculateSMA_def
      detectFractal_def detectTrend_def js_falsy_num_def)

lemma decideDirection_mixedWindow:
  "decideDirection (getIndicators mixedWindow) mixedWindow
     = (PUT, [lbl_RSIacima, lbl_FractalTopo])"
  unfolding getIndicators_mixedWindow
  by (simp add: decideDirection_def buyRules_def sellRules_def pushMatching_def)

lemma decideDirection_risingWindow:
  "decideDirection (getIndicators risingWindow) risingWindow
     = (CALL, [lbl_RSIacima, lbl_PrecoAcima, lbl_TendenciaAlta])"
  unfolding getIndicators_risingWindow
  by (simp add: decideDirection_def buyRules_def sellRules_def pushMatching_def
      risingWindow_def flat_def)

lemma last_risingWindow: "close (last risingWindow) = 16"
  by (simp add: risingWindow_def flat_def)

lemma labels_distinct:
  "lbl_RSIacima \<noteq> lbl_PrecoAcima" "lbl_RSIacima \<noteq> lbl_TendenciaAlta"
  "lbl_PrecoAcima \<noteq> lbl_TendenciaAlta"
  by (simp_all add: lbl_RSIacima_def lbl_PrecoAcima_def lbl_TendenciaAlta_def)

lemma rawWinrate_EURUSD:
  "rawWinrate exampleEnv ''EURUSD'' CALL [lbl_RSIacima, lbl_PrecoAcima, lbl_TendenciaAlta] = 91"
  by (simp add: rawWinrate_def exampleEnv_def winrateAdjustment_def recentFeedback_def
      lossPenalty_def similarLoss_def winRecord_def)

lemma rawWinrate_GBPUSD:
  "rawWinrate exampleEnv ''GBPUSD'' CALL [lbl_RSIacima, lbl_PrecoAcima, lbl_TendenciaAlta] = 95"
  by (simp add: rawWinrate_def exampleEnv_def winrateAdjustment_def recentFeedback_def
      lossPenalty_def similarLoss_def winRecord_def)

lemma analyzeAsset_exampleEnv:
  assumes "a = ''EURUSD'' \<or> a = ''GBPUSD''"
  shows "analyzeAsset exampleEnv a config =
     Some \<lparr> timestamp = clock 10 7 30, asset = a, marketType = REAL, direction = CALL,
            confluences = [lbl_RSIacima, lbl_PrecoAcima, lbl_TendenciaAlta],
            strength = Medium, confidence = Media,
            winrate = (if a = ''EURUSD'' then 91 else 95), price = 16,
            entryTimestamp = fst (entrySchedule 0 (clock 10 7 30) (cfg_timeframe config)),
            entryTime = format_HHmmss 0
                          (fst (entrySchedule 0 (clock 10 7 30) (cfg_timeframe config))),
            expiration = snd (entrySchedule 0 (clock 10 7 30) (cfg_timeframe config)),
            sig_context = Some \<lparr> ctx_rsi = Some 100, ctx_macdHist = None, ctx_trend = ''up'',
                                  ctx_confluences =
                                    [lbl_RSIacima, lbl_PrecoAcima, lbl_TendenciaAlta] \<rparr> \<rparr>"
proof -
  have md: "marketData exampleEnv a = Some \<lparr> md_candles = risingWindow, md_marketType = REAL \<rparr>"
    using assms by (auto simp: exampleEnv_def)
  have env: "now exampleEnv = clock 10 7 30" "tzOffset exampleEnv = 0"
    by (simp_all add: exampleEnv_def)
  have raw: "rawWinrate exampleEnv a CALL [lbl_RSIacima, lbl_PrecoAcima, lbl_TendenciaAlta]
               = (if a = ''EURUSD'' then 91 else 95)"
    using assms rawWinrate_EURUSD rawWinrate_GBPUSD by auto
  show ?thesis
    unfolding analyzeAsset_def md
    by (simp add: Let_def decideDirection_risingWindow [unfolded getIndicators_risingWindow]
        raw env last_risingWindow getIndicators_risingWindow strengthOf_def confidenceOf_def
        trend_str_def)
qed

lemma analyzeAsset_mixedEnv:
  "map_option direction (analyzeAsset mixedEnv ''EURUSD'' config) = Some PUT"
  "map_option confluences (analyzeAsset mixedEnv ''EURUSD'' config)
     = Some [lbl_RSIacima, lbl_FractalTopo]"
  unfolding analyzeAsset_def
  by (simp_all add: mixedEnv_def decideDirection_mixedWindow Let_def)

text \<open>
  C1 at the input where the code departs from it. On \<open>mixedWindow\<close> exactly one buy rule holds
  (RSI above 50) and exactly one sell rule holds (top fractal), so the claim says the result
  is absent. The sell block pushes onto the array that still holds the buy label, the
  array reaches length 2, and a PUT signal is returned with the labels of both sides.
\<close>

theorem analyzeAsset_one_buy_one_sell:
  "countHolding (buyRules (getIndicators mixedWindow) mixedWindow) = 1
   \<and> countHolding (sellRules (getIndicators mixedWindow) mixedWindow) = 1
   \<and> map_option direction (analyzeAsset mixedEnv ''EURUSD'' configM1) = Some PUT
   \<and> map_option confluences (analyzeAsset mixedEnv ''EURUSD'' configM1)
       = Some [''RSI > 50'', ''Fractal Topo'']"
proof -
  have "countHolding (buyRules (getIndicators mixedWindow) mixedWindow) = 1"
    unfolding getIndicators_mixedWindow by (simp add: buyRules_def countHolding_def)
  moreover have "countHolding (sellRules (getIndicators mixedWindow) mixedWindow) = 1"
    unfolding getIndicators_mixedWindow by (simp add: sellRules_def countHolding_def)
  moreover have "[lbl_RSIacima, lbl_FractalTopo] = [''RSI > 50'', ''Fractal Topo'']"
    by (simp add: lbl_RSIacima_def lbl_FractalTopo_def)
  ultimately show ?thesis
    using analyzeAsset_mixedEnv [of configM1] by simp
qed

text \<open>
  C10. Every signal \<open>analyzeAsset\<close> returns carries at least two confluence labels, its
  direction is CALL or PUT, and its strength is Weak, Medium or Strong, never the
  \<open>None\<close> value of the type.
\<close>

theorem analyzeAsset_min_confluences:
  assumes "analyzeAsset e a config = Some s"
  shows "2 \<le> length (confluences s)
         \<and> strength s \<in> {Weak, Medium, Strong}
         \<and> strength s \<noteq> NoStrength"
proof -
  from analyzeAsset_SomeD(1) [OF assms] obtain data :: market_entry where
    d: "decideDirection (getIndicators (md_candles data)) (md_candles data)
          = (direction s, confluences s)"
    by blast
  have "direction s \<noteq> NEUTRAL" by (rule analyzeAsset_SomeD(2) [OF assms])
  with decideDirection_not_neutral [of "getIndicators (md_candles data)" "md_candles data"] d
  have "2 \<le> length (confluences s)" by simp
  moreover have "strength s = strengthOf (length (confluences s))"
    by (rule analyzeAsset_SomeD(5) [OF assms])
  ultimately show ?thesis by (simp add: strengthOf_def)
qed

theorem analyzeAsset_min_confluences_witness:
  "\<exists>s. analyzeAsset exampleEnv ''EURUSD'' configM1 = Some s
       \<and> length (confluences s) = 3 \<and> 2 \<le> length (confluences s)
       \<and> strength s = Medium \<and> strength s \<noteq> NoStrength"
proof -
  obtain s where s: "analyzeAsset exampleEnv ''EURUSD'' configM1 = Some s"
    by (simp add: analyzeAsset_exampleEnv)
  from s have "length (confluences s) = 3" "strength s = Medium"
    by (auto simp: analyzeAsset_exampleEnv)
  with s analyzeAsset_min_confluences [OF s] show ?thesis by blast
qed

text \<open>
  C5. The winrate of a returned signal is the raw score
  \<open>75 + 5 * labels + 5 * random + adjustment + penalty\<close> clamped to the interval from 0 to
  100, whatever the size of the adjustment, the penalty and the random draw.
\<close>

theorem analyzeAsset_winrate_clamped:
  assumes "analyzeAsset e a config = Some s"
  shows "0 \<le> winrate s \<and> winrate s \<le> 100
         \<and> winrate s =
             max 0 (min (75 + real (length (confluences s)) * 5 + random e a * 5
                          + winrateAdjustment (feedbackHistory e) a
                          + lossPenalty (feedbackHistory e) a (direction s) (confluences s))
                        100)"
proof -
  have w: "winrate s = max 0 (min (rawWinrate e a (direction s) (confluences s)) 100)"
    by (rule analyzeAsset_SomeD(4) [OF assms])
  then have "0 \<le> winrate s" "winrate s \<le> 100" by simp_all
  with w show ?thesis by (simp add: rawWinrate_def)
qed

lemma winrateAdjustment_streak:
  "winrateAdjustment (replicate 20 (winRecord ''EURUSD'')) ''EURUSD'' = 20"
  by (simp add: winrateAdjustment_def recentFeedback_def winRecord_def Let_def)

lemma lossPenalty_streak:
  "lossPenalty (replicate 20 (winRecord ''EURUSD'')) ''EURUSD'' d c = 0"
  by (simp add: lossPenalty_def similarLoss_def winRecord_def Let_def)

lemma rawWinrate_streakEnv:
  "rawWinrate streakEnv ''EURUSD'' CALL [lbl_RSIacima, lbl_PrecoAcima, lbl_TendenciaAlta] = 110"
  by (simp add: rawWinrate_def streakEnv_def winrateAdjustment_streak lossPenalty_streak)

lemma analyzeAsset_on_risingWindow:
  assumes "marketData e a = Some \<lparr> md_candles = risingWindow, md_marketType = REAL \<rparr>"
  shows "\<exists>s. analyzeAsset e a config = Some s \<and> direction s = CALL
           \<and> confluences s = [lbl_RSIacima, lbl_PrecoAcima, lbl_TendenciaAlta]
           \<and> winrate s = max 0 (min (rawWinrate e a CALL
                            [lbl_RSIacima, lbl_PrecoAcima, lbl_TendenciaAlta]) 100)"
  unfolding analyzeAsset_def assms
  by (simp add: Let_def decideDirection_risingWindow)

theorem analyzeAsset_winrate_clamped_witness:
  "(\<exists>s. analyzeAsset exampleEnv ''GBPUSD'' configM1 = Some s
        \<and> 0 \<le> winrate s \<and> winrate s \<le> 100 \<and> winrate s = 95)
   \<and> (\<exists>s. analyzeAsset streakEnv ''EURUSD'' configM1 = Some s
        \<and> 75 + real (length (confluences s)) * 5 + random streakEnv ''EURUSD'' * 5
            + winrateAdjustment (feedbackHistory streakEnv) ''EURUSD''
            + lossPenalty (feedbackHistory streakEnv) ''EURUSD'' (direction s) (confluences s)
            = 110
        \<and> 0 \<le> winrate s \<and> winrate s \<le> 100 \<and> winrate s = 100)"
proof (intro conjI)
  obtain s where s: "analyzeAsset exampleEnv ''GBPUSD'' configM1 = Some s"
    by (simp add: analyzeAsset_exampleEnv)
  then have "winrate s = 95" by (auto simp: analyzeAsset_exampleEnv)
  with s analyzeAsset_winrate_clamped [OF s]
  show "\<exists>s. analyzeAsset exampleEnv ''GBPUSD'' configM1 = Some s
        \<and> 0 \<le> winrate s \<and> winrate s \<le> 100 \<and> winrate s = 95"
    by blast
next
  have "marketData streakEnv ''EURUSD''
          = Some \<lparr> md_candles = risingWindow, md_marketType = REAL \<rparr>"
    by (simp add: streakEnv_def)
  from analyzeAsset_on_risingWindow [OF this, of configM1] obtain s where
    s: "analyzeAsset streakEnv ''EURUSD'' configM1 = Some s" and
    d: "direction s = CALL"
       "confluences s = [lbl_RSIacima, lbl_PrecoAcima, lbl_TendenciaAlta]"
    by blast
  have raw: "75 + real (length (confluences s)) * 5 + random streakEnv ''EURUSD'' * 5
            + winrateAdjustment (feedbackHistory streakEnv) ''EURUSD''
            + lossPenalty (feedbackHistory streakEnv) ''EURUSD'' (direction s) (confluences s)
            = 110"
    using rawWinrate_streakEnv by (simp add: d rawWinrate_def)
  from analyzeAsset_winrate_clamped [OF s] have
    "0 \<le> winrate s" "winrate s \<le> 100" "winrate s = 100"
    unfolding raw by simp_all
  with s raw show "\<exists>s. analyzeAsset streakEnv ''EURUSD'' configM1 = Some s
        \<and> 75 + real (length (confluences s)) * 5 + random streakEnv ''EURUSD'' * 5
            + winrateAdjustment (feedbackHistory streakEnv) ''EURUSD''
            + lossPenalty (feedbackHistory streakEnv) ''EURUSD'' (direction s) (confluences s)
            = 110
        \<and> 0 \<le> winrate s \<and> winrate s \<le> 100 \<and> winrate s = 100"
    by blast
qed

section \<open>Entry scheduling: properties\<close>

lemma entrySchedule_M1:
  "entrySchedule tz t M1 = (t - t mod 60000 + 2 * 60000, ''1 min'')"
  by (simp add: entrySchedule_def addMinutes_def startOfMinute_def)

lemma nextRound_eq:
  "\<lceil>(real_of_int m + 1) / 5\<rceil> * 5 = - (- (m + 1) div 5) * 5"
proof -
  have "(real_of_int m + 1) / 5 = real_of_int (m + 1) / real_of_int 5" by simp
  then show ?thesis by (simp only: ceiling_divide_eq_div)
qed

lemma minute_floor_shift:
  fixes t k :: int
  shows "t - t mod 60000 + k * 60000 = 60000 * (t div 60000 + k)"
proof -
  have "t - t mod 60000 = 60000 * (t div 60000)" by (rule minus_mod_eq_mult_div)
  then show ?thesis by (simp add: algebra_simps)
qed

lemma entrySchedule_M5_eq:
  "entrySchedule tz t M5 =
     (t - t mod 60000
        + (- (- (getMinutes tz t + 1) div 5) * 5 - getMinutes tz t) * 60000, ''5 min'')"
proof -
  define k where "k = - (- (getMinutes tz t + 1) div 5) * 5 - getMinutes tz t"
  define E where "E = t - t mod 60000 + k * 60000"
  have "(t + k * 60000) mod 60000 = t mod 60000" by simp
  then have start: "startOfMinute (addMinutes t k) = E"
    by (simp add: startOfMinute_def addMinutes_def E_def)
  have E: "E = 60000 * (t div 60000 + k)"
    unfolding E_def by (rule minute_floor_shift)
  have "E mod 60000 = 0" unfolding E by simp
  moreover have "E = 1000 * (60 * (t div 60000 + k))" unfolding E by simp
  then have "E mod 1000 = 0" by simp
  ultimately have "setSeconds E 0 = E" by (simp add: setSeconds_def)
  with start show ?thesis
    by (simp add: entrySchedule_def Let_def nextRound_eq k_def E_def)
qed

lemma entrySchedule_M5_boundary:
  fixes tz t :: int
  defines "E \<equiv> fst (entrySchedule tz t M5)"
  shows "E mod 60000 = 0" and "getMinutes tz E mod 5 = 0" and "t < E" and "E \<le> t + 5 * 60000"
proof -
  define q where "q = t div 60000 + tz"
  define m where "m = q mod 60"
  define k where "k = - (- (m + 1) div 5) * 5 - m"
  define r where "r = t mod 60000"
  have gm: "getMinutes tz t = m" by (simp add: getMinutes_def m_def q_def)
  have E: "E = t - r + k * 60000"
    by (simp add: E_def entrySchedule_M5_eq gm k_def r_def)
  have E': "E = 60000 * (t div 60000 + k)"
    unfolding E r_def by (rule minute_floor_shift)
  have k: "1 \<le> k" "k \<le> 5" "(m + k) mod 5 = 0"
    unfolding k_def by presburger+
  have r: "0 \<le> r" "r < 60000" by (simp_all add: r_def)
  show "E mod 60000 = 0" unfolding E' by simp
  have "E div 60000 = t div 60000 + k" unfolding E' by simp
  then have "E div 60000 + tz = q + k" by (simp add: q_def)
  then have gE: "getMinutes tz E = (q + k) mod 60"
    by (simp only: getMinutes_def)
  have "q mod 5 = m mod 5"
    unfolding m_def by (simp add: mod_mod_cancel)
  then have "(q + k) mod 5 = (m + k) mod 5"
    by (metis mod_add_left_eq)
  moreover have "((q + k) mod 60) mod 5 = (q + k) mod 5"
    by (simp add: mod_mod_cancel)
  ultimately show "getMinutes tz E mod 5 = 0"
    using k(3) gE by simp
  show "t < E" unfolding E using k(1) r by linarith
  show "E \<le> t + 5 * 60000" unfolding E using k(2) r by linarith
qed

lemma clock_values:
  "clock 10 7 30 = 36450000" "clock 10 9 0 = 36540000" "clock 10 10 0 = 36600000"
  by (simp_all add: clock_def)

lemma entry_at_100730:
  fixes d tz t :: int
  assumes "t + tz * 60000 = d * 86400000 + clock 10 7 30"
  shows "fst (entrySchedule tz t M1) + tz * 60000 = d * 86400000 + clock 10 9 0"
    and "fst (entrySchedule tz t M5) + tz * 60000 = d * 86400000 + clock 10 10 0"
proof -
  define q where "q = 1440 * d + 607 - tz"
  have t: "t = 60000 * q + 30000"
    using assms by (simp add: clock_values q_def)
  have tm: "t mod 60000 = 30000" unfolding t by simp
  have td: "t div 60000 = q" unfolding t by simp
  show "fst (entrySchedule tz t M1) + tz * 60000 = d * 86400000 + clock 10 9 0"
    by (simp add: entrySchedule_M1 tm clock_values) (simp add: t q_def)
  have "t div 60000 + tz = 60 * (24 * d + 10) + 7"
    by (simp add: td q_def)
  then have "getMinutes tz t = (60 * (24 * d + 10) + 7) mod 60"
    by (simp only: getMinutes_def)
  then have "getMinutes tz t = 7 mod 60" by (simp only: mod_mult_self4)
  then have gm: "getMinutes tz t = 7" by simp
  show "fst (entrySchedule tz t M5) + tz * 60000 = d * 86400000 + clock 10 10 0"
    by (simp add: entrySchedule_M5_eq tm gm clock_values) (simp add: t q_def)
qed

lemma format_at:
  fixes d tz E h m s :: int
  assumes "E + tz * 60000 = d * 86400000 + ((h * 60 + m) * 60 + s) * 1000"
    and "0 \<le> h" "h < 24" "0 \<le> m" "m < 60" "0 \<le> s" "s < 60"
  shows "format_HHmmss tz E = two_digits h @ '':'' @ two_digits m @ '':'' @ two_digits s"
proof -
  define l where "l = E + tz * 60000"
  have l: "l = d * 86400000 + ((h * 60 + m) * 60 + s) * 1000"
    using assms(1) by (simp add: l_def)
  have l1: "l = 1000 * (60 * (1440 * d + 60 * h + m) + s)"
    unfolding l by (simp add: algebra_simps)
  have "l div 1000 = 60 * (1440 * d + 60 * h + m) + s"
    unfolding l1 by simp
  then have "l div 1000 mod 60 = s mod 60" by (simp only: mod_mult_self4)
  then have s: "l div 1000 mod 60 = s"
    using assms(6,7) by simp
  have l2: "l = 60000 * (60 * (24 * d + h) + m) + 1000 * s"
    unfolding l by (simp add: algebra_simps)
  have "(1000 * s) div 60000 = 0"
    using assms(6,7) by (simp add: div_pos_pos_trivial)
  then have "l div 60000 = 60 * (24 * d + h) + m"
    unfolding l2 by simp
  then have "l div 60000 mod 60 = m mod 60" by (simp only: mod_mult_self4)
  then have m: "l div 60000 mod 60 = m"
    using assms(4,5) by simp
  have l3: "l = 3600000 * (24 * d + h) + (60000 * m + 1000 * s)"
    unfolding l by (simp add: algebra_simps)
  have "(60000 * m + 1000 * s) div 3600000 = 0"
    using assms(4-7) by (simp add: div_pos_pos_trivial)
  then have "l div 3600000 = 24 * d + h"
    unfolding l3 by simp
  then have "l div 3600000 mod 24 = h mod 24" by (simp only: mod_mult_self4)
  then have h: "l div 3600000 mod 24 = h"
    using assms(2,3) by simp
  show ?thesis
    unfolding format_HHmmss_def Let_def l_def [symmetric] h m s ..
qed

lemma two_digits_values:
  "two_digits 10 = ''10''" "two_digits 9 = ''09''" "two_digits 0 = ''00''"
  by (simp_all add: two_digits_def)

text \<open>
  C2 (as amended). For a scan at wall-clock time \<open>t\<close>: with timeframe M1 the entry
  timestamp of the emitted signal is \<open>t\<close> rounded down to the minute plus 2 minutes and the
  expiration label is "1 min"; with M5 it is the one multiple-of-5 minute boundary \<open>E\<close> (in
  local time, seconds and milliseconds zero) with \<open>t < E \<le> t + 5 min\<close>, and the label is
  "5 min". A call at local time 10:07:30 yields 10:09:00 with M1 and 10:10:00 with M5.
\<close>

theorem entry_scheduling:
  assumes "analyzeAsset e a config = Some s"
  shows "(cfg_timeframe config = M1 \<longrightarrow>
            entryTimestamp s = now e - now e mod 60000 + 2 * 60000
            \<and> expiration s = ''1 min'')
       \<and> (cfg_timeframe config = M5 \<longrightarrow>
            entryTimestamp s mod 60000 = 0
            \<and> getMinutes (tzOffset e) (entryTimestamp s) mod 5 = 0
            \<and> now e < entryTimestamp s
            \<and> entryTimestamp s \<le> now e + 5 * 60000
            \<and> expiration s = ''5 min'')
       \<and> (now e + tzOffset e * 60000 = d * 86400000 + clock 10 7 30 \<longrightarrow>
            (cfg_timeframe config = M1 \<longrightarrow>
               entryTimestamp s + tzOffset e * 60000 = d * 86400000 + clock 10 9 0
               \<and> entryTime s = ''10:09:00'')
            \<and> (cfg_timeframe config = M5 \<longrightarrow>
               entryTimestamp s + tzOffset e * 60000 = d * 86400000 + clock 10 10 0
               \<and> entryTime s = ''10:10:00''))"
proof -
  note ts = analyzeAsset_SomeD(6) [OF assms]
  note ex = analyzeAsset_SomeD(7) [OF assms]
  note et = analyzeAsset_SomeD(8) [OF assms]
  have m1: "entryTimestamp s = now e - now e mod 60000 + 2 * 60000 \<and> expiration s = ''1 min''"
    if "cfg_timeframe config = M1"
    using that ts ex by (simp add: entrySchedule_M1)
  have m5: "entryTimestamp s mod 60000 = 0
            \<and> getMinutes (tzOffset e) (entryTimestamp s) mod 5 = 0
            \<and> now e < entryTimestamp s
            \<and> entryTimestamp s \<le> now e + 5 * 60000
            \<and> expiration s = ''5 min''"
    if "cfg_timeframe config = M5"
  proof -
    have "entryTimestamp s = fst (entrySchedule (tzOffset e) (now e) M5)"
      using that ts by simp
    moreover have "expiration s = ''5 min''"
      using that ex by (simp add: entrySchedule_M5_eq)
    ultimately show ?thesis
      using entrySchedule_M5_boundary [where tz = "tzOffset e" and t = "now e"] by simp
  qed
  have at: "(cfg_timeframe config = M1 \<longrightarrow>
               entryTimestamp s + tzOffset e * 60000 = d * 86400000 + clock 10 9 0
               \<and> entryTime s = ''10:09:00'')
            \<and> (cfg_timeframe config = M5 \<longrightarrow>
               entryTimestamp s + tzOffset e * 60000 = d * 86400000 + clock 10 10 0
               \<and> entryTime s = ''10:10:00'')"
    if now: "now e + tzOffset e * 60000 = d * 86400000 + clock 10 7 30"
  proof (intro conjI impI)
    assume tf: "cfg_timeframe config = M1"
    show e1: "entryTimestamp s + tzOffset e * 60000 = d * 86400000 + clock 10 9 0"
      using entry_at_100730(1) [OF now] ts tf by simp
    then have "entryTimestamp s + tzOffset e * 60000
                 = d * 86400000 + ((10 * 60 + 9) * 60 + 0) * 1000"
      by (simp add: clock_def)
    then have "format_HHmmss (tzOffset e) (entryTimestamp s)
                 = two_digits 10 @ '':'' @ two_digits 9 @ '':'' @ two_digits 0"
      by (rule format_at) simp_all
    then show "entryTime s = ''10:09:00''"
      using et by (simp add: two_digits_values)
  next
    assume tf: "cfg_timeframe config = M5"
    show e5: "entryTimestamp s + tzOffset e * 60000 = d * 86400000 + clock 10 10 0"
      using entry_at_100730(2) [OF now] ts tf by simp
    then have "entryTimestamp s + tzOffset e * 60000
                 = d * 86400000 + ((10 * 60 + 10) * 60 + 0) * 1000"
      by (simp add: clock_def)
    then have "format_HHmmss (tzOffset e) (entryTimestamp s)
                 = two_digits 10 @ '':'' @ two_digits 10 @ '':'' @ two_digits 0"
      by (rule format_at) simp_all
    then show "entryTime s = ''10:10:00''"
      using et by (simp add: two_digits_values)
  qed
  from m1 m5 at show ?thesis by blast
qed

theorem entry_scheduling_witness:
  "(\<exists>s. analyzeAsset exampleEnv ''EURUSD'' configM1 = Some s
        \<and> entryTimestamp s = clock 10 9 0 \<and> entryTime s = ''10:09:00''
        \<and> expiration s = ''1 min'')
   \<and> (\<exists>s. analyzeAsset exampleEnv ''EURUSD'' configM5 = Some s
        \<and> entryTimestamp s = clock 10 10 0 \<and> entryTime s = ''10:10:00''
        \<and> expiration s = ''5 min'')"
proof (intro conjI)
  have now: "now exampleEnv + tzOffset exampleEnv * 60000 = 0 * 86400000 + clock 10 7 30"
    by (simp add: exampleEnv_def)
  have tz: "tzOffset exampleEnv = 0" by (simp add: exampleEnv_def)
  obtain s where s: "analyzeAsset exampleEnv ''EURUSD'' configM1 = Some s"
    by (simp add: analyzeAsset_exampleEnv)
  have "cfg_timeframe configM1 = M1" by (simp add: configM1_def)
  with entry_scheduling [OF s, of 0] now tz
  have "entryTimestamp s = clock 10 9 0 \<and> entryTime s = ''10:09:00''
        \<and> expiration s = ''1 min''"
    by simp
  with s show "\<exists>s. analyzeAsset exampleEnv ''EURUSD'' configM1 = Some s
        \<and> entryTimestamp s = clock 10 9 0 \<and> entryTime s = ''10:09:00''
        \<and> expiration s = ''1 min''"
    by blast
  obtain s' where s': "analyzeAsset exampleEnv ''EURUSD'' configM5 = Some s'"
    by (simp add: analyzeAsset_exampleEnv)
  have "cfg_timeframe configM5 = M5" by (simp add: configM5_def)
  with entry_scheduling [OF s', of 0] now tz
  have "entryTimestamp s' = clock 10 10 0 \<and> entryTime s' = ''10:10:00''
        \<and> expiration s' = ''5 min''"
    by simp
  with s' show "\<exists>s. analyzeAsset exampleEnv ''EURUSD'' configM5 = Some s
        \<and> entryTimestamp s = clock 10 10 0 \<and> entryTime s = ''10:10:00''
        \<and> expiration s = ''5 min''"
    by blast
qed

text \<open>
  C2 as stated fails in its M1 example: a call at 10:07:30 with timeframe M1 yields the
  entry timestamp 10:09:00 (10:07:00 plus 2 minutes), not 10:10:00.
\<close>

theorem entry_M1_at_100730:
  "now exampleEnv = clock 10 7 30
   \<and> map_option entryTimestamp (analyzeAsset exampleEnv ''EURUSD'' configM1)
       = Some (clock 10 9 0)
   \<and> map_option entryTimestamp (analyzeAsset exampleEnv ''EURUSD'' configM1)
       \<noteq> Some (clock 10 10 0)
   \<and> map_option entryTime (analyzeAsset exampleEnv ''EURUSD'' configM1) = Some ''10:09:00''"
proof -
  have "entrySchedule 0 (clock 10 7 30) M1 = (clock 10 9 0, ''1 min'')"
    by (simp add: entrySchedule_M1 clock_values)
  moreover have "format_HHmmss 0 (clock 10 9 0) = ''10:09:00''"
    by (simp add: format_HHmmss_def clock_values two_digits_def)
  moreover have "now exampleEnv = clock 10 7 30"
    by (simp add: exampleEnv_def)
  moreover have "clock 10 9 0 \<noteq> clock 10 10 0"
    by (simp add: clock_values)
  ultimately show ?thesis
    by (simp add: analyzeAsset_exampleEnv configM1_def)
qed

section \<open>Feedback endpoint: properties\<close>

lemma postFeedback_rejected:
  assumes "js_falsy_str (f_asset fb) \<or> js_falsy_str (f_result fb)"
  shows "postFeedback t fb hist
           = (\<lparr> statusCode = 400, body = ErrorBody ''Invalid feedback'' \<rparr>, hist)"
  using assms by (simp add: postFeedback_def)

lemma postFeedback_accepted:
  assumes "\<not> js_falsy_str (f_asset fb)" and "\<not> js_falsy_str (f_result fb)"
  shows "postFeedback t fb hist
           = (\<lparr> statusCode = 200, body = OkBody (Suc (length hist)) \<rparr>,
              hist @ [fb \<lparr> f_timestamp := Some t \<rparr>])"
  using assms by (simp add: postFeedback_def Let_def)

text \<open>
  C7 (as amended). A feedback submission whose asset or result is absent or the empty
  string is answered with status 400 and leaves the history as it was. Every other
  submission, whatever its result string, is stamped with the current time, appended as
  exactly one record at the end, and answered with status 200 and the new history size.
\<close>

theorem postFeedback_validation:
  "(f_asset fb = None \<or> f_asset fb = Some [] \<or> f_result fb = None \<or> f_result fb = Some []
      \<longrightarrow> statusCode (fst (postFeedback t fb hist)) = 400
          \<and> body (fst (postFeedback t fb hist)) = ErrorBody ''Invalid feedback''
          \<and> snd (postFeedback t fb hist) = hist)
   \<and> ((\<exists>a r. f_asset fb = Some a \<and> a \<noteq> [] \<and> f_result fb = Some r \<and> r \<noteq> [])
      \<longrightarrow> snd (postFeedback t fb hist) = hist @ [fb \<lparr> f_timestamp := Some t \<rparr>]
          \<and> length (snd (postFeedback t fb hist)) = length hist + 1
          \<and> statusCode (fst (postFeedback t fb hist)) = 200
          \<and> body (fst (postFeedback t fb hist)) = OkBody (length (snd (postFeedback t fb hist))))"
proof (intro conjI impI)
  assume "f_asset fb = None \<or> f_asset fb = Some [] \<or> f_result fb = None \<or> f_result fb = Some []"
  then have "js_falsy_str (f_asset fb) \<or> js_falsy_str (f_result fb)"
    by (auto simp: js_falsy_str_def)
  from postFeedback_rejected [OF this, of t hist]
  show "statusCode (fst (postFeedback t fb hist)) = 400"
    and "body (fst (postFeedback t fb hist)) = ErrorBody ''Invalid feedback''"
    and "snd (postFeedback t fb hist) = hist"
    by simp_all
next
  assume "\<exists>a r. f_asset fb = Some a \<and> a \<noteq> [] \<and> f_result fb = Some r \<and> r \<noteq> []"
  then have "\<not> js_falsy_str (f_asset fb)" "\<not> js_falsy_str (f_result fb)"
    by (auto simp: js_falsy_str_def)
  from postFeedback_accepted [OF this, of t hist]
  show "snd (postFeedback t fb hist) = hist @ [fb \<lparr> f_timestamp := Some t \<rparr>]"
    and "length (snd (postFeedback t fb hist)) = length hist + 1"
    and "statusCode (fst (postFeedback t fb hist)) = 200"
    and "body (fst (postFeedback t fb hist)) = OkBody (length (snd (postFeedback t fb hist)))"
    by simp_all
qed

theorem postFeedback_validation_witness:
  "postFeedback 5 (lossRecord \<lparr> f_result := None \<rparr>) [winRecord ''EURUSD'']
     = (\<lparr> statusCode = 400, body = ErrorBody ''Invalid feedback'' \<rparr>, [winRecord ''EURUSD''])
   \<and> snd (postFeedback 5 lossRecord [winRecord ''EURUSD''])
       = [winRecord ''EURUSD'', lossRecord \<lparr> f_timestamp := Some 5 \<rparr>]
   \<and> fst (postFeedback 5 lossRecord [winRecord ''EURUSD''])
       = \<lparr> statusCode = 200, body = OkBody 2 \<rparr>"
proof -
  have bad: "f_asset (lossRecord \<lparr> f_result := None \<rparr>) = None
      \<or> f_asset (lossRecord \<lparr> f_result := None \<rparr>) = Some []
      \<or> f_result (lossRecord \<lparr> f_result := None \<rparr>) = None
      \<or> f_result (lossRecord \<lparr> f_result := None \<rparr>) = Some []"
    by simp
  have good: "\<exists>a r. f_asset lossRecord = Some a \<and> a \<noteq> [] \<and> f_result lossRecord = Some r \<and> r \<noteq> []"
    by (simp add: lossRecord_def)
  from postFeedback_validation
         [of "lossRecord \<lparr> f_result := None \<rparr>" 5 "[winRecord ''EURUSD'']", THEN conjunct1,
           THEN mp, OF bad]
  have a: "postFeedback 5 (lossRecord \<lparr> f_result := None \<rparr>) [winRecord ''EURUSD'']
     = (\<lparr> statusCode = 400, body = ErrorBody ''Invalid feedback'' \<rparr>, [winRecord ''EURUSD''])"
    by (cases "postFeedback 5 (lossRecord \<lparr> f_result := None \<rparr>) [winRecord ''EURUSD'']")
       (cases "fst (postFeedback 5 (lossRecord \<lparr> f_result := None \<rparr>) [winRecord ''EURUSD''])",
         simp)
  from postFeedback_validation
         [of lossRecord 5 "[winRecord ''EURUSD'']", THEN conjunct2, THEN mp, OF good]
  have b: "snd (postFeedback 5 lossRecord [winRecord ''EURUSD''])
       = [winRecord ''EURUSD'', lossRecord \<lparr> f_timestamp := Some 5 \<rparr>]"
    and c: "fst (postFeedback 5 lossRecord [winRecord ''EURUSD''])
       = \<lparr> statusCode = 200, body = OkBody 2 \<rparr>"
    by (simp, cases "fst (postFeedback 5 lossRecord [winRecord ''EURUSD''])", simp)
  from a b c show ?thesis by (intro conjI)
qed

text \<open>
  C7 as stated fails: a submission with an asset and the unrecognized result "draw" is
  accepted with status 200 and changes the history.
\<close>

theorem postFeedback_accepts_unrecognized:
  "f_result drawBody \<noteq> Some ''win'' \<and> f_result drawBody \<noteq> Some ''loss''
   \<and> postFeedback 5 drawBody []
       = (\<lparr> statusCode = 200, body = OkBody 1 \<rparr>, [drawBody \<lparr> f_timestamp := Some 5 \<rparr>])
   \<and> snd (postFeedback 5 drawBody []) \<noteq> []"
  by (simp add: postFeedback_def js_falsy_str_def drawBody_def)

section \<open>Loss penalty and feedback adjustment: properties\<close>

lemma lossPenalty_eq:
  "lossPenalty hist a d c = - 5 * real (length (filter (similarLoss a d c) hist))"
  by (simp add: lossPenalty_def Let_def)

lemma lossPenalty_append:
  "lossPenalty (hist @ [f]) a d c
     = lossPenalty hist a d c - (if similarLoss a d c f then 5 else 0)"
  by (simp add: lossPenalty_eq)

lemma overlapRatio_sets:
  assumes "distinct recorded" and "distinct current"
  shows "overlapRatio recorded current = setOverlap recorded current"
proof -
  have "distinct (filter (\<lambda>c. c \<in> set current) recorded)"
    using assms(1) by simp
  then have "length (filter (\<lambda>c. c \<in> set current) recorded)
               = card (set (filter (\<lambda>c. c \<in> set current) recorded))"
    by (rule distinct_card [symmetric])
  also have "set (filter (\<lambda>c. c \<in> set current) recorded) = set recorded \<inter> set current"
    by auto
  finally show ?thesis
    using assms by (simp add: overlapRatio_def setOverlap_def distinct_card)
qed

lemma drop_count_bounds:
  "length (filter P (drop (Suc k) xs)) \<le> length (filter P (drop k xs))"
  "length (filter P (drop k xs)) \<le> Suc (length (filter P (drop (Suc k) xs)))"
proof -
  show "length (filter P (drop (Suc k) xs)) \<le> length (filter P (drop k xs))"
  proof (cases "k < length xs")
    case True
    then have "drop k xs = xs ! k # drop (Suc k) xs" by (simp add: Cons_nth_drop_Suc)
    then show ?thesis by simp
  next
    case False
    then show ?thesis by simp
  qed
  show "length (filter P (drop k xs)) \<le> Suc (length (filter P (drop (Suc k) xs)))"
  proof (cases "k < length xs")
    case True
    then have "drop k xs = xs ! k # drop (Suc k) xs" by (simp add: Cons_nth_drop_Suc)
    then show ?thesis by simp
  next
    case False
    then show ?thesis by simp
  qed
qed

lemma window_shift_counts:
  fixes own :: "'a list"
  shows "length (filter P (drop (Suc (length own) - 20) own))
           \<le> length (filter P (drop (length own - 20) own))"
    and "length (filter P (drop (length own - 20) own))
           \<le> Suc (length (filter P (drop (Suc (length own) - 20) own)))"
proof -
  consider "20 \<le> length own" | "length own < 20" by linarith
  then have "Suc (length own) - 20 = Suc (length own - 20)
             \<or> (Suc (length own) - 20 = 0 \<and> length own - 20 = 0)"
    by (cases; simp add: Suc_diff_le)
  then show "length (filter P (drop (Suc (length own) - 20) own))
           \<le> length (filter P (drop (length own - 20) own))"
    and "length (filter P (drop (length own - 20) own))
           \<le> Suc (length (filter P (drop (Suc (length own) - 20) own)))"
    using drop_count_bounds [of P "length own - 20" own] by auto
qed

lemma recentFeedback_append_own:
  assumes "f_asset f = Some a"
  shows "recentFeedback (hist @ [f]) a
           = drop (Suc (length (filter (\<lambda>f. f_asset f = Some a) hist)) - 20)
                  (filter (\<lambda>f. f_asset f = Some a) hist) @ [f]"
  using assms by (simp add: recentFeedback_def Let_def)

lemma adjustment_order:
  fixes l l' w w' :: nat
  assumes "l \<le> l'" and "w' \<le> w"
  shows "(if l' > w' then - (real l' - real w') * 2
          else if w' > l' then (real w' - real l') * 1 else 0)
       \<le> (if l > w then - (real l - real w) * 2
          else if w > l then (real w - real l) * 1 else 0)"
  using assms by auto

lemma winrateAdjustment_append_loss:
  assumes "f_asset f = Some a" and "f_result f = Some ''loss''"
  shows "winrateAdjustment (hist @ [f]) a \<le> winrateAdjustment hist a"
proof -
  define own where "own = filter (\<lambda>f. f_asset f = Some a) hist"
  define isLoss where "isLoss = (\<lambda>f :: feedback. f_result f = Some ''loss'')"
  define isWin where "isWin = (\<lambda>f :: feedback. f_result f = Some ''win'')"
  define T where "T = drop (Suc (length own) - 20) own"
  have new: "recentFeedback (hist @ [f]) a = T @ [f]"
    using recentFeedback_append_own [OF assms(1)] by (simp add: T_def own_def)
  have old: "recentFeedback hist a = drop (length own - 20) own"
    by (simp add: recentFeedback_def own_def Let_def)
  have "isLoss f" "\<not> isWin f"
    using assms(2) by (simp_all add: isLoss_def isWin_def)
  then have l: "length (filter isLoss (recentFeedback hist a))
                  \<le> length (filter isLoss (recentFeedback (hist @ [f]) a))"
    and w: "length (filter isWin (recentFeedback (hist @ [f]) a))
                  \<le> length (filter isWin (recentFeedback hist a))"
    unfolding new old T_def
    using window_shift_counts [of isLoss own] window_shift_counts [of isWin own]
    by simp_all
  show ?thesis
    unfolding winrateAdjustment_def Let_def isLoss_def [symmetric] isWin_def [symmetric]
    by (rule adjustment_order [OF l w])
qed

lemma rawWinrate_append_loss:
  assumes "similarLoss a d c f"
  shows "rawWinrate (e \<lparr> feedbackHistory := feedbackHistory e @ [f] \<rparr>) a d c
           \<le> rawWinrate e a d c - 5"
proof -
  have "f_asset f = Some a" "f_result f = Some ''loss''"
    using assms by (simp_all add: similarLoss_def)
  then have "winrateAdjustment (feedbackHistory e @ [f]) a
               \<le> winrateAdjustment (feedbackHistory e) a"
    by (rule winrateAdjustment_append_loss)
  moreover have "lossPenalty (feedbackHistory e @ [f]) a d c
                   = lossPenalty (feedbackHistory e) a d c - 5"
    using assms by (simp add: lossPenalty_append)
  ultimately show ?thesis by (simp add: rawWinrate_def)
qed

lemma rawWinrate_append_losses:
  assumes "\<forall>f \<in> set fs. similarLoss a d c f"
  shows "rawWinrate (e \<lparr> feedbackHistory := feedbackHistory e @ fs \<rparr>) a d c
           \<le> rawWinrate e a d c - 5 * real (length fs)"
  using assms
proof (induction fs rule: rev_induct)
  case Nil
  show ?case by simp
next
  case (snoc f fs)
  let ?e = "e \<lparr> feedbackHistory := feedbackHistory e @ fs \<rparr>"
  have "similarLoss a d c f" using snoc.prems by simp
  from rawWinrate_append_loss [OF this, of ?e]
  have "rawWinrate (e \<lparr> feedbackHistory := feedbackHistory e @ fs @ [f] \<rparr>) a d c
          \<le> rawWinrate ?e a d c - 5"
    by simp
  moreover have "rawWinrate ?e a d c \<le> rawWinrate e a d c - 5 * real (length fs)"
    using snoc by simp
  ultimately show ?case by simp
qed

lemma analyzeAsset_other_history:
  assumes "analyzeAsset e a config = Some s"
  shows "analyzeAsset (e \<lparr> feedbackHistory := h \<rparr>) a config
           = Some (s \<lparr> winrate := max 0 (min (rawWinrate (e \<lparr> feedbackHistory := h \<rparr>) a
                                               (direction s) (confluences s)) 100) \<rparr>)"
  using assms
  by (auto simp: analyzeAsset_def Let_def split: option.splits if_splits)

lemma clamp_after_losses:
  fixes raw raw' :: real
  assumes "raw' < raw"
  shows "max 0 (min raw' 100) \<le> max 0 (min raw 100)"
    and "max 0 (min raw' 100) < max 0 (min raw 100)
         \<or> (max 0 (min raw' 100) = 100 \<and> max 0 (min raw 100) = 100)
         \<or> (max 0 (min raw' 100) = 0 \<and> max 0 (min raw 100) = 0)"
  using assms by auto

text \<open>
  C6 (as amended). The loss penalty is minus 5 times the number of history records with the
  same asset, the same direction, result loss and a context whose labels overlap the
  current ones by at least 0.7, the overlap being the number of recorded labels found among
  the current ones over the longer of the two label arrays (on duplicate-free arrays: the
  size of the intersection over the larger set size). Appending matching loss records to the
  history leaves direction and labels as they were, lowers the penalty by 5 per record, and
  never raises the winrate; with at least one record appended the winrate falls strictly
  unless it is clamped to 100 both before and after, or to 0 both before and after.
\<close>

theorem loss_penalty_effect:
  "lossPenalty hist a d c = - 5 * real (length (filter (similarLoss a d c) hist))
   \<and> (similarLoss a d c f \<longleftrightarrow>
        f_asset f = Some a \<and> f_direction f = Some (direction_str d)
        \<and> f_result f = Some ''loss''
        \<and> (\<exists>ctx. f_context f = Some ctx
               \<and> 7 / 10 \<le> real (length (filter (\<lambda>x. x \<in> set c) (ctx_confluences ctx)))
                            / real (max (length (ctx_confluences ctx)) (length c))))
   \<and> (distinct r \<and> distinct c \<longrightarrow> overlapRatio r c = setOverlap r c)
   \<and> (analyzeAsset e a config = Some s
        \<and> (\<forall>f \<in> set fs. similarLoss a (direction s) (confluences s) f) \<longrightarrow>
        (\<exists>s'. analyzeAsset (e \<lparr> feedbackHistory := feedbackHistory e @ fs \<rparr>) a config = Some s'
           \<and> direction s' = direction s \<and> confluences s' = confluences s
           \<and> lossPenalty (feedbackHistory e @ fs) a (direction s) (confluences s)
               = lossPenalty (feedbackHistory e) a (direction s) (confluences s)
                   - 5 * real (length fs)
           \<and> winrate s' \<le> winrate s
           \<and> (fs \<noteq> [] \<longrightarrow>
                winrate s' < winrate s
                \<or> (winrate s' = 100 \<and> winrate s = 100)
                \<or> (winrate s' = 0 \<and> winrate s = 0))))"
proof (intro conjI impI)
  show "lossPenalty hist a d c = - 5 * real (length (filter (similarLoss a d c) hist))"
    by (rule lossPenalty_eq)
next
  show "similarLoss a d c f \<longleftrightarrow>
        f_asset f = Some a \<and> f_direction f = Some (direction_str d)
        \<and> f_result f = Some ''loss''
        \<and> (\<exists>ctx. f_context f = Some ctx
               \<and> 7 / 10 \<le> real (length (filter (\<lambda>x. x \<in> set c) (ctx_confluences ctx)))
                            / real (max (length (ctx_confluences ctx)) (length c)))"
    by (cases "f_context f") (auto simp: similarLoss_def overlapRatio_def)
next
  assume "distinct r \<and> distinct c"
  then show "overlapRatio r c = setOverlap r c"
    by (simp add: overlapRatio_sets)
next
  assume a: "analyzeAsset e a config = Some s
        \<and> (\<forall>f \<in> set fs. similarLoss a (direction s) (confluences s) f)"
  let ?e' = "e \<lparr> feedbackHistory := feedbackHistory e @ fs \<rparr>"
  let ?raw = "rawWinrate e a (direction s) (confluences s)"
  let ?raw' = "rawWinrate ?e' a (direction s) (confluences s)"
  define s' where "s' = s \<lparr> winrate := max 0 (min ?raw' 100) \<rparr>"
  from a have s: "analyzeAsset e a config = Some s"
    and fs: "\<forall>f \<in> set fs. similarLoss a (direction s) (confluences s) f"
    by simp_all
  have an: "analyzeAsset ?e' a config = Some s'"
    unfolding s'_def by (rule analyzeAsset_other_history [OF s])
  have w: "winrate s = max 0 (min ?raw 100)"
    by (rule analyzeAsset_SomeD(4) [OF s])
  have w': "winrate s' = max 0 (min ?raw' 100)"
    by (simp add: s'_def)
  have le: "?raw' \<le> ?raw - 5 * real (length fs)"
    by (rule rawWinrate_append_losses [OF fs])
  have "filter (similarLoss a (direction s) (confluences s)) fs = fs"
    using fs by simp
  then have pen: "lossPenalty (feedbackHistory e @ fs) a (direction s) (confluences s)
               = lossPenalty (feedbackHistory e) a (direction s) (confluences s)
                   - 5 * real (length fs)"
    by (simp add: lossPenalty_eq)
  have mono: "winrate s' \<le> winrate s"
    using le unfolding w w' by auto
  have strict: "winrate s' < winrate s
                \<or> (winrate s' = 100 \<and> winrate s = 100)
                \<or> (winrate s' = 0 \<and> winrate s = 0)" if "fs \<noteq> []"
  proof -
    from that have "0 < real (length fs)" by simp
    with le have "?raw' < ?raw" by linarith
    then show ?thesis unfolding w w' by (rule clamp_after_losses(2))
  qed
  have "direction s' = direction s" "confluences s' = confluences s"
    by (simp_all add: s'_def)
  with an pen mono strict
  show "\<exists>s'. analyzeAsset ?e' a config = Some s'
           \<and> direction s' = direction s \<and> confluences s' = confluences s
           \<and> lossPenalty (feedbackHistory e @ fs) a (direction s) (confluences s)
               = lossPenalty (feedbackHistory e) a (direction s) (confluences s)
                   - 5 * real (length fs)
           \<and> winrate s' \<le> winrate s
           \<and> (fs \<noteq> [] \<longrightarrow>
                winrate s' < winrate s
                \<or> (winrate s' = 100 \<and> winrate s = 100)
                \<or> (winrate s' = 0 \<and> winrate s = 0))"
    by blast
qed

lemma similarLoss_lossRecord:
  "similarLoss ''EURUSD'' CALL [lbl_RSIacima, lbl_PrecoAcima, lbl_TendenciaAlta] lossRecord"
  by (simp add: similarLoss_def lossRecord_def direction_str_def overlapRatio_def)

theorem loss_penalty_effect_witness:
  "\<exists>s s'. analyzeAsset exampleEnv ''EURUSD'' configM1 = Some s
     \<and> analyzeAsset (exampleEnv \<lparr> feedbackHistory := feedbackHistory exampleEnv @ [lossRecord] \<rparr>)
         ''EURUSD'' configM1 = Some s'
     \<and> similarLoss ''EURUSD'' (direction s) (confluences s) lossRecord
     \<and> winrate s = 91 \<and> winrate s' < winrate s"
proof -
  obtain s where s: "analyzeAsset exampleEnv ''EURUSD'' configM1 = Some s"
    by (simp add: analyzeAsset_exampleEnv)
  then have d: "direction s = CALL"
    "confluences s = [lbl_RSIacima, lbl_PrecoAcima, lbl_TendenciaAlta]" "winrate s = 91"
    by (auto simp: analyzeAsset_exampleEnv)
  have m: "similarLoss ''EURUSD'' (direction s) (confluences s) lossRecord"
    unfolding d by (rule similarLoss_lossRecord)
  then have "analyzeAsset exampleEnv ''EURUSD'' configM1 = Some s
        \<and> (\<forall>f \<in> set [lossRecord]. similarLoss ''EURUSD'' (direction s) (confluences s) f)"
    using s by simp
  from loss_penalty_effect [where e = exampleEnv and a = "''EURUSD''" and config = configM1
      and s = s and fs = "[lossRecord]", THEN conjunct2, THEN conjunct2, THEN conjunct2,
      THEN mp, OF this]
  obtain s' where
    s': "analyzeAsset (exampleEnv \<lparr> feedbackHistory := feedbackHistory exampleEnv @ [lossRecord] \<rparr>)
           ''EURUSD'' configM1 = Some s'"
    and cases: "winrate s' < winrate s \<or> (winrate s' = 100 \<and> winrate s = 100)
                  \<or> (winrate s' = 0 \<and> winrate s = 0)"
    by auto
  from cases d(3) have "winrate s' < winrate s" by simp
  with s s' m d(3) show ?thesis by blast
qed

text \<open>
  C6 as stated fails in its strictness: after twenty wins the score of EURUSD is 110 and the
  winrate 100; with one matching loss appended the penalty is -5, the score 103, and the
  winrate is still 100.
\<close>

theorem loss_penalty_saturated:
  "similarLoss ''EURUSD'' CALL [lbl_RSIacima, lbl_PrecoAcima, lbl_TendenciaAlta] lossRecord
   \<and> lossPenalty (feedbackHistory streakEnv) ''EURUSD'' CALL
        [lbl_RSIacima, lbl_PrecoAcima, lbl_TendenciaAlta] = 0
   \<and> lossPenalty (feedbackHistory streakEnv @ [lossRecord]) ''EURUSD'' CALL
        [lbl_RSIacima, lbl_PrecoAcima, lbl_TendenciaAlta] = - 5
   \<and> map_option winrate (analyzeAsset streakEnv ''EURUSD'' configM1) = Some 100
   \<and> map_option winrate
        (analyzeAsset (streakEnv \<lparr> feedbackHistory := feedbackHistory streakEnv @ [lossRecord] \<rparr>)
           ''EURUSD'' configM1) = Some 100"
proof -
  let ?c = "[lbl_RSIacima, lbl_PrecoAcima, lbl_TendenciaAlta]"
  let ?e' = "streakEnv \<lparr> feedbackHistory := feedbackHistory streakEnv @ [lossRecord] \<rparr>"
  have h: "feedbackHistory streakEnv = replicate 20 (winRecord ''EURUSD'')"
    by (simp add: streakEnv_def)
  have p0: "lossPenalty (feedbackHistory streakEnv) ''EURUSD'' CALL ?c = 0"
    unfolding h by (rule lossPenalty_streak)
  have p1: "lossPenalty (feedbackHistory streakEnv @ [lossRecord]) ''EURUSD'' CALL ?c = - 5"
    using p0 similarLoss_lossRecord by (simp add: lossPenalty_append)
  have adj: "winrateAdjustment (feedbackHistory streakEnv @ [lossRecord]) ''EURUSD'' = 18"
    unfolding h
    by (simp add: winrateAdjustment_def recentFeedback_def winRecord_def lossRecord_def Let_def)
  have raw': "rawWinrate ?e' ''EURUSD'' CALL ?c = 103"
    using p1 adj by (simp add: rawWinrate_def) (simp add: streakEnv_def)
  have md: "marketData streakEnv ''EURUSD''
          = Some \<lparr> md_candles = risingWindow, md_marketType = REAL \<rparr>"
    by (simp add: streakEnv_def)
  then have md': "marketData ?e' ''EURUSD''
          = Some \<lparr> md_candles = risingWindow, md_marketType = REAL \<rparr>"
    by simp
  from analyzeAsset_on_risingWindow [OF md, of configM1] rawWinrate_streakEnv
  have w0: "map_option winrate (analyzeAsset streakEnv ''EURUSD'' configM1) = Some 100"
    by auto
  from analyzeAsset_on_risingWindow [OF md', of configM1] raw'
  have w1: "map_option winrate (analyzeAsset ?e' ''EURUSD'' configM1) = Some 100"
    by auto
  from similarLoss_lossRecord p0 p1 w0 w1 show ?thesis by (intro conjI)
qed

section \<open>Scanner: properties\<close>

lemma scanAsset_logs:
  "logs (scanAsset e config muted lastInfo a acc)
     = logs acc @ [dispositionLog e config muted lastInfo a]"
  by (simp add: scanAsset_def dispositionLog_def pushLog_def Let_def split: option.splits)

lemma scanAsset_best:
  "bestSignal (scanAsset e config muted lastInfo a acc)
     = (case candidate e config muted lastInfo a of
          None \<Rightarrow> bestSignal acc
        | Some s \<Rightarrow> keepBetter (bestSignal acc) s)"
  by (auto simp: scanAsset_def candidate_def pushLog_def Let_def split: option.splits)

lemma fold_scanAsset_logs:
  "logs (fold (scanAsset e config muted lastInfo) assets acc)
     = logs acc @ map (dispositionLog e config muted lastInfo) assets"
  by (induction assets arbitrary: acc) (simp_all add: scanAsset_logs)

lemma fold_scanAsset_best:
  "bestSignal (fold (scanAsset e config muted lastInfo) assets acc)
     = fold (\<lambda>s b. keepBetter b s) (candidates e config muted lastInfo assets) (bestSignal acc)"
proof (induction assets arbitrary: acc)
  case Nil
  show ?case by (simp add: candidates_def List.map_filter_simps)
next
  case (Cons a assets)
  show ?case
    by (cases "candidate e config muted lastInfo a")
       (simp_all add: Cons.IH scanAsset_best candidates_def List.map_filter_simps)
qed

lemma firstMax_Cons_greater:
  assumes "winrate b < winrate s"
  shows "firstMax (b # s # cs) = firstMax (s # cs)"
proof -
  define P where "P = (\<lambda>x :: signal. \<forall>t \<in> set (b # s # cs). winrate t \<le> winrate x)"
  define Q where "Q = (\<lambda>x :: signal. \<forall>t \<in> set (s # cs). winrate t \<le> winrate x)"
  have "\<not> P b" using assms by (auto simp: P_def)
  then have "find P (b # s # cs) = find P (s # cs)" by simp
  also have "\<dots> = find Q (s # cs)"
  proof (rule find_cong [OF refl])
    fix x assume "x \<in> set (s # cs)"
    show "P x = Q x" using assms by (auto simp: P_def Q_def)
  qed
  finally show ?thesis by (simp only: firstMax_def P_def Q_def)
qed

lemma firstMax_Cons_not_greater:
  assumes "\<not> winrate b < winrate s"
  shows "firstMax (b # s # cs) = firstMax (b # cs)"
proof -
  define P where "P = (\<lambda>x :: signal. \<forall>t \<in> set (b # s # cs). winrate t \<le> winrate x)"
  define Q where "Q = (\<lambda>x :: signal. \<forall>t \<in> set (b # cs). winrate t \<le> winrate x)"
  have PQ: "P = Q" using assms by (auto simp: P_def Q_def fun_eq_iff)
  have "Q b \<or> \<not> Q s" using assms by (auto simp: Q_def)
  then have "find Q (b # s # cs) = find Q (b # cs)" by auto
  then have "find P (b # s # cs) = find Q (b # cs)" by (simp only: PQ)
  then show ?thesis by (simp only: firstMax_def P_def Q_def)
qed

lemma fold_keepBetter:
  "fold (\<lambda>s b. keepBetter b s) cs (Some b) = firstMax (b # cs)"
proof (induction cs arbitrary: b)
  case Nil
  show ?case by (simp add: firstMax_def)
next
  case (Cons s cs)
  show ?case
  proof (cases "winrate b < winrate s")
    case True
    then have "keepBetter (Some b) s = Some s" by (simp add: keepBetter_def)
    with True show ?thesis
      by (simp add: Cons.IH firstMax_Cons_greater)
  next
    case False
    then have "keepBetter (Some b) s = Some b" by (simp add: keepBetter_def)
    with False show ?thesis
      by (simp add: Cons.IH firstMax_Cons_not_greater)
  qed
qed

lemma fold_keepBetter_None:
  "fold (\<lambda>s b. keepBetter b s) cs None = firstMax cs"
proof (cases cs)
  case Nil
  then show ?thesis by (simp add: firstMax_def)
next
  case (Cons s cs')
  have "keepBetter None s = Some s" by (simp add: keepBetter_def)
  with Cons show ?thesis by (simp add: fold_keepBetter)
qed

lemma scanLoop_best:
  "bestSignal (scanLoop e config muted lastInfo assets)
     = firstMax (candidates e config muted lastInfo assets)"
  by (simp add: scanLoop_def fold_scanAsset_best fold_keepBetter_None)

lemma scanLoop_logs:
  "logs (scanLoop e config muted lastInfo assets)
     = map (dispositionLog e config muted lastInfo) assets"
  by (simp add: scanLoop_def fold_scanAsset_logs)

lemma dispositionLog_asset: "log_asset (dispositionLog e config muted lastInfo a) = a_name a"
  by (simp add: dispositionLog_def logEntry_def split: option.splits)

lemma scanMarket_best:
  "bestSignal (snd (scanMarket e assets config muted lastInfo))
     = firstMax (candidates e config muted lastInfo assets)"
  by (simp add: scanMarket_def Let_def pushLog_def scanLoop_best [symmetric]
      split: option.splits)

lemma scanMarket_logs:
  "logs (snd (scanMarket e assets config muted lastInfo))
     = map (dispositionLog e config muted lastInfo) assets
       @ (case firstMax (candidates e config muted lastInfo assets) of
            None \<Rightarrow> []
          | Some b \<Rightarrow> [logEntry e (asset b) Selected None])"
  by (simp add: scanMarket_def Let_def pushLog_def scanLoop_best [symmetric] scanLoop_logs
      split: option.splits)

lemma scanMarket_lastInfo:
  "fst (scanMarket e assets config muted lastInfo)
     = (case firstMax (candidates e config muted lastInfo assets) of
          None \<Rightarrow> lastInfo
        | Some b \<Rightarrow> Some \<lparr> li_asset = asset b, li_entryTimestamp = entryTimestamp b \<rparr>)"
  by (simp add: scanMarket_def Let_def scanLoop_best [symmetric] split: option.splits)

lemma firstMax_SomeD:
  assumes "firstMax cs = Some b"
  shows "\<exists>i < length cs. cs ! i = b
           \<and> (\<forall>j < i. winrate (cs ! j) < winrate b)
           \<and> (\<forall>t \<in> set cs. winrate t \<le> winrate b)"
proof -
  from assms obtain i where i: "i < length cs" "cs ! i = b"
    and mx: "\<forall>t \<in> set cs. winrate t \<le> winrate b"
    and first: "\<forall>j < i. \<not> (\<forall>t \<in> set cs. winrate t \<le> winrate (cs ! j))"
    unfolding firstMax_def find_Some_iff by blast
  have "winrate (cs ! j) < winrate b" if "j < i" for j
  proof -
    from first that obtain t where "t \<in> set cs" "\<not> winrate t \<le> winrate (cs ! j)" by blast
    with mx show ?thesis by fastforce
  qed
  with i mx show ?thesis by blast
qed

lemma firstMax_None_iff: "firstMax cs = None \<longleftrightarrow> cs = []"
proof
  assume n: "firstMax cs = None"
  show "cs = []"
  proof (rule ccontr)
    assume "cs \<noteq> []"
    then have "fold (\<lambda>s b. keepBetter b s) (tl cs) (Some (hd cs)) = firstMax cs"
      by (cases cs) (simp_all add: fold_keepBetter)
    moreover have "fold (\<lambda>s b. keepBetter b s) xs (Some x) \<noteq> None" for xs and x :: signal
    proof (induction xs arbitrary: x)
      case Nil
      show ?case by simp
    next
      case (Cons y ys)
      have "keepBetter (Some x) y = Some y \<or> keepBetter (Some x) y = Some x"
        by (simp add: keepBetter_def)
      then show ?case using Cons.IH by auto
    qed
    ultimately show False using n by metis
  qed
next
  assume "cs = []"
  then show "firstMax cs = None" by (simp add: firstMax_def)
qed

lemma candidate_SomeD:
  assumes "candidate e config muted lastInfo a = Some s"
  shows "a_name a \<notin> set muted" and "analyzeAsset e (a_name a) config = Some s"
    and "90 \<le> winrate s" and "\<not> alreadySent lastInfo s"
  using assms by (auto simp: candidate_def split: if_splits option.splits)

lemma candidates_member:
  "s \<in> set (candidates e config muted lastInfo assets)
     \<longleftrightarrow> (\<exists>a \<in> set assets. candidate e config muted lastInfo a = Some s)"
  by (induction assets) (auto simp: candidates_def List.map_filter_simps split: option.splits)

lemma logEntry_fields:
  "log_asset (logEntry e a st r) = a"
  "log_status (logEntry e a st r) = st"
  "log_reason (logEntry e a st r) = r"
  "log_time (logEntry e a st r) = format_HHmmss (tzOffset e) (now e)"
  by (simp_all add: logEntry_def)

lemma candidates_pair:
  assumes "candidate e config muted lastInfo A = Some sa"
    and "candidate e config muted lastInfo B = Some sb"
  shows "candidates e config muted lastInfo [A, B] = [sa, sb]"
  using assms by (simp add: candidates_def List.map_filter_simps)

lemma candidates_pair_muted:
  assumes "candidate e config muted lastInfo A = Some sa"
    and "a_name B \<in> set muted"
  shows "candidates e config muted lastInfo [A, B] = [sa]"
  using assms by (simp add: candidates_def List.map_filter_simps candidate_def)

lemma firstMax_pair:
  "firstMax [sa, sb] = (if winrate sa < winrate sb then Some sb else Some sa)"
  by (auto simp: firstMax_def)

text \<open>
  C3. One scan cycle writes one log entry per instrument, in enumeration order, followed
  by the Selected entry if there is a selection. The selected signal is the first
  candidate, in enumeration order, whose winrate no candidate exceeds: every earlier
  candidate has a strictly smaller winrate (a later one replaces the best only when strictly
  greater, so the first-seen wins ties), and nothing is selected exactly when no instrument
  passes the filters. With instruments A (winrate 91) and B (winrate 95) both passing, B is
  selected; with B muted and A passing, A is selected and B is logged as discarded for
  being muted.
\<close>

theorem scan_selection:
  "map log_asset (take (length assets) (logs (snd (scanMarket e assets config muted lastInfo))))
     = map a_name assets
   \<and> keepBetter (Some b) s = (if winrate s > winrate b then Some s else Some b)
   \<and> bestSignal (snd (scanMarket e assets config muted lastInfo))
       = firstMax (candidates e config muted lastInfo assets)
   \<and> (bestSignal (snd (scanMarket e assets config muted lastInfo)) = None
        \<longleftrightarrow> candidates e config muted lastInfo assets = [])
   \<and> (\<forall>best. bestSignal (snd (scanMarket e assets config muted lastInfo)) = Some best \<longrightarrow>
        (\<exists>i < length (candidates e config muted lastInfo assets).
            candidates e config muted lastInfo assets ! i = best
            \<and> (\<forall>j < i. winrate (candidates e config muted lastInfo assets ! j) < winrate best)
            \<and> (\<forall>t \<in> set (candidates e config muted lastInfo assets).
                  winrate t \<le> winrate best)))
   \<and> (candidate e config muted lastInfo A = Some sa \<and> winrate sa = 91
        \<and> candidate e config muted lastInfo B = Some sb \<and> winrate sb = 95 \<longrightarrow>
        bestSignal (snd (scanMarket e [A, B] config muted lastInfo)) = Some sb)
   \<and> (candidate e config muted lastInfo A = Some sa \<and> a_name B \<in> set muted \<longrightarrow>
        bestSignal (snd (scanMarket e [A, B] config muted lastInfo)) = Some sa
        \<and> (\<exists>l \<in> set (logs (snd (scanMarket e [A, B] config muted lastInfo))).
              log_asset l = a_name B \<and> log_status l = Discarded
              \<and> log_reason l = Some Silenciado))"
proof (intro conjI allI impI)
  show "map log_asset (take (length assets)
          (logs (snd (scanMarket e assets config muted lastInfo)))) = map a_name assets"
    by (simp add: scanMarket_logs dispositionLog_asset comp_def)
next
  show "keepBetter (Some b) s = (if winrate s > winrate b then Some s else Some b)"
    by (simp add: keepBetter_def)
next
  show "bestSignal (snd (scanMarket e assets config muted lastInfo))
          = firstMax (candidates e config muted lastInfo assets)"
    by (rule scanMarket_best)
next
  show "bestSignal (snd (scanMarket e assets config muted lastInfo)) = None
          \<longleftrightarrow> candidates e config muted lastInfo assets = []"
    by (simp add: scanMarket_best firstMax_None_iff)
next
  fix best
  assume "bestSignal (snd (scanMarket e assets config muted lastInfo)) = Some best"
  then have "firstMax (candidates e config muted lastInfo assets) = Some best"
    by (simp add: scanMarket_best)
  then show "\<exists>i < length (candidates e config muted lastInfo assets).
            candidates e config muted lastInfo assets ! i = best
            \<and> (\<forall>j < i. winrate (candidates e config muted lastInfo assets ! j) < winrate best)
            \<and> (\<forall>t \<in> set (candidates e config muted lastInfo assets).
                  winrate t \<le> winrate best)"
    by (rule firstMax_SomeD)
next
  assume "candidate e config muted lastInfo A = Some sa \<and> winrate sa = 91
        \<and> candidate e config muted lastInfo B = Some sb \<and> winrate sb = 95"
  then show "bestSignal (snd (scanMarket e [A, B] config muted lastInfo)) = Some sb"
    by (simp add: scanMarket_best candidates_pair firstMax_pair)
next
  assume a: "candidate e config muted lastInfo A = Some sa \<and> a_name B \<in> set muted"
  then show "bestSignal (snd (scanMarket e [A, B] config muted lastInfo)) = Some sa"
    by (simp add: scanMarket_best candidates_pair_muted firstMax_def)
  from a have "dispositionLog e config muted lastInfo B
                 = logEntry e (a_name B) Discarded (Some Silenciado)"
    by (simp add: dispositionLog_def)
  then have "logEntry e (a_name B) Discarded (Some Silenciado)
            \<in> set (logs (snd (scanMarket e [A, B] config muted lastInfo)))"
    by (simp add: scanMarket_logs)
  then show "\<exists>l \<in> set (logs (snd (scanMarket e [A, B] config muted lastInfo))).
              log_asset l = a_name B \<and> log_status l = Discarded
              \<and> log_reason l = Some Silenciado"
    by (rule bexI [rotated]) (simp add: logEntry_fields)
qed

lemma candidate_exampleEnv:
  assumes "A = EURUSD \<or> A = GBPUSD" and "a_name A \<notin> set muted"
    and "analyzeAsset exampleEnv (a_name A) configM1 = Some s"
    and "\<not> alreadySent lastInfo s"
  shows "candidate exampleEnv configM1 muted lastInfo A = Some s"
proof -
  have "a_name A = ''EURUSD'' \<or> a_name A = ''GBPUSD''"
    using assms(1) by (auto simp: EURUSD_def GBPUSD_def)
  from analyzeAsset_exampleEnv [OF this, of configM1] assms(3)
  have "\<not> winrate s < 90" by auto
  with assms(2-4) show ?thesis
    by (simp add: candidate_def configM1_def)
qed

theorem scan_selection_witness:
  "\<exists>sa sb. analyzeAsset exampleEnv ''EURUSD'' configM1 = Some sa \<and> winrate sa = 91
     \<and> analyzeAsset exampleEnv ''GBPUSD'' configM1 = Some sb \<and> winrate sb = 95
     \<and> bestSignal (snd (scanMarket exampleEnv [EURUSD, GBPUSD] configM1 [] None)) = Some sb
     \<and> bestSignal (snd (scanMarket exampleEnv [EURUSD, GBPUSD] configM1 [''GBPUSD''] None))
         = Some sa
     \<and> (\<exists>l \<in> set (logs (snd (scanMarket exampleEnv [EURUSD, GBPUSD] configM1
                                 [''GBPUSD''] None))).
           log_asset l = ''GBPUSD'' \<and> log_status l = Discarded
           \<and> log_reason l = Some Silenciado)"
proof -
  obtain sa where sa: "analyzeAsset exampleEnv ''EURUSD'' configM1 = Some sa"
    by (simp add: analyzeAsset_exampleEnv)
  obtain sb where sb: "analyzeAsset exampleEnv ''GBPUSD'' configM1 = Some sb"
    by (simp add: analyzeAsset_exampleEnv)
  from sa have wa: "winrate sa = 91" by (auto simp: analyzeAsset_exampleEnv)
  from sb have wb: "winrate sb = 95" by (auto simp: analyzeAsset_exampleEnv)
  have names: "a_name EURUSD = ''EURUSD''" "a_name GBPUSD = ''GBPUSD''"
    by (simp_all add: EURUSD_def GBPUSD_def)
  have ca: "candidate exampleEnv configM1 muted None EURUSD = Some sa"
    if "''EURUSD'' \<notin> set muted" for muted
    using that sa by (intro candidate_exampleEnv) (simp_all add: names alreadySent_def)
  have cb: "candidate exampleEnv configM1 [] None GBPUSD = Some sb"
    using sb by (intro candidate_exampleEnv) (simp_all add: names alreadySent_def)
  have both: "candidate exampleEnv configM1 [] None EURUSD = Some sa \<and> winrate sa = 91
        \<and> candidate exampleEnv configM1 [] None GBPUSD = Some sb \<and> winrate sb = 95"
    using ca [of "[]"] cb wa wb by simp
  have mutedB: "candidate exampleEnv configM1 [''GBPUSD''] None EURUSD = Some sa
        \<and> a_name GBPUSD \<in> set [''GBPUSD'']"
    using ca [of "[''GBPUSD'']"] by (simp add: names)
  note sel = scan_selection [where e = exampleEnv and config = configM1 and lastInfo = None
      and A = EURUSD and B = GBPUSD and sa = sa and sb = sb]
  have "bestSignal (snd (scanMarket exampleEnv [EURUSD, GBPUSD] configM1 [] None)) = Some sb"
    by (rule sel [where muted = "[]", THEN conjunct2, THEN conjunct2, THEN conjunct2,
          THEN conjunct2, THEN conjunct2, THEN conjunct1, THEN mp, OF both])
  moreover have
    "bestSignal (snd (scanMarket exampleEnv [EURUSD, GBPUSD] configM1 [''GBPUSD''] None))
         = Some sa
     \<and> (\<exists>l \<in> set (logs (snd (scanMarket exampleEnv [EURUSD, GBPUSD] configM1
                                 [''GBPUSD''] None))).
           log_asset l = a_name GBPUSD \<and> log_status l = Discarded
           \<and> log_reason l = Some Silenciado)"
    by (rule sel [where muted = "[''GBPUSD'']", THEN conjunct2, THEN conjunct2, THEN conjunct2,
          THEN conjunct2, THEN conjunct2, THEN conjunct2, THEN mp, OF mutedB])
  ultimately show ?thesis
    using sa sb wa wb by (auto simp: names)
qed

lemma alreadySent_iff:
  "alreadySent lastInfo s
     \<longleftrightarrow> lastInfo = Some \<lparr> li_asset = asset s, li_entryTimestamp = entryTimestamp s \<rparr>"
  by (cases lastInfo) (auto simp: alreadySent_def)

lemma selected_not_alreadySent:
  assumes "bestSignal (snd (scanMarket e assets config muted lastInfo)) = Some b"
  shows "\<not> alreadySent lastInfo b"
proof -
  from assms have "firstMax (candidates e config muted lastInfo assets) = Some b"
    by (simp add: scanMarket_best)
  from firstMax_SomeD [OF this] have "b \<in> set (candidates e config muted lastInfo assets)"
    by (metis nth_mem)
  then obtain a where "candidate e config muted lastInfo a = Some b"
    by (auto simp: candidates_member)
  then show ?thesis by (rule candidate_SomeD(4))
qed

lemma repeat_is_discarded:
  assumes "a \<in> set assets" and "a_name a \<notin> set muted"
    and "cfg_marketType config = GERAL \<or> a_type a = cfg_marketType config"
    and "analyzeAsset e (a_name a) config = Some s" and "90 \<le> winrate s"
    and "alreadySent lastInfo s"
  shows "\<exists>l \<in> set (logs (snd (scanMarket e assets config muted lastInfo))).
           log_asset l = a_name a \<and> log_status l = Discarded \<and> log_reason l = Some JaEnviado"
    and "candidate e config muted lastInfo a = None"
proof -
  have "dispositionLog e config muted lastInfo a
          = logEntry e (a_name a) Discarded (Some JaEnviado)"
    using assms(2-6) by (auto simp: dispositionLog_def)
  then have "logEntry e (a_name a) Discarded (Some JaEnviado)
           \<in> set (logs (snd (scanMarket e assets config muted lastInfo)))"
    using assms(1) by (force simp: scanMarket_logs)
  then show "\<exists>l \<in> set (logs (snd (scanMarket e assets config muted lastInfo))).
           log_asset l = a_name a \<and> log_status l = Discarded \<and> log_reason l = Some JaEnviado"
    by (rule bexI [rotated]) (simp add: logEntry_fields)
  show "candidate e config muted lastInfo a = None"
    using assms(2-6) by (auto simp: candidate_def)
qed

text \<open>
  C4. In every scan cycle, whatever the state \<open>lastInfo\<close> left by the earlier cycles of the
  session: the selected signal never has both the asset and the entry timestamp stored in
  \<open>lastInfo\<close>; an instrument that passes the mute, market-type and winrate filters but whose
  signal has that asset and entry timestamp is not a candidate and is logged as discarded with
  the already-sent reason; when no instrument is a candidate nothing is selected and the
  stored pair stays as it was; the stored pair after the cycle is the pair of the new
  selection if there is one and the old pair otherwise; a message that is not a scan request
  leaves it unchanged. Hence the signal selected in one cycle and the signal selected in the
  next never agree in both asset and entry timestamp.
\<close>

theorem repeat_suppression:
  "(\<forall>b. bestSignal (snd (scanMarket e assets config muted lastInfo)) = Some b \<longrightarrow>
        lastInfo \<noteq> Some \<lparr> li_asset = asset b, li_entryTimestamp = entryTimestamp b \<rparr>)
   \<and> (a \<in> set assets \<and> a_name a \<notin> set muted
        \<and> (cfg_marketType config = GERAL \<or> a_type a = cfg_marketType config)
        \<and> analyzeAsset e (a_name a) config = Some s \<and> 90 \<le> winrate s
        \<and> lastInfo = Some \<lparr> li_asset = asset s, li_entryTimestamp = entryTimestamp s \<rparr> \<longrightarrow>
        candidate e config muted lastInfo a = None
        \<and> (\<exists>l \<in> set (logs (snd (scanMarket e assets config muted lastInfo))).
              log_asset l = a_name a \<and> log_status l = Discarded
              \<and> log_reason l = Some JaEnviado))
   \<and> (candidates e config muted lastInfo assets = [] \<longrightarrow>
        bestSignal (snd (scanMarket e assets config muted lastInfo)) = None
        \<and> fst (scanMarket e assets config muted lastInfo) = lastInfo)
   \<and> fst (scanMarket e assets config muted lastInfo)
       = (case bestSignal (snd (scanMarket e assets config muted lastInfo)) of
            None \<Rightarrow> lastInfo
          | Some b \<Rightarrow> Some \<lparr> li_asset = asset b, li_entryTimestamp = entryTimestamp b \<rparr>)
   \<and> (msg_type m \<noteq> ''SCAN_MARKET'' \<longrightarrow> onMessage e lastInfo m = (lastInfo, None))
   \<and> (msg_type m = ''SCAN_MARKET'' \<longrightarrow>
        onMessage e lastInfo m
          = (fst (scanMarket e ASSETS (msg_config m)
                    (case msg_mutedAssets m of None \<Rightarrow> [] | Some l \<Rightarrow> l) lastInfo),
             Some (snd (scanMarket e ASSETS (msg_config m)
                    (case msg_mutedAssets m of None \<Rightarrow> [] | Some l \<Rightarrow> l) lastInfo))))
   \<and> (\<forall>b b'. bestSignal (snd (scanMarket e assets config muted lastInfo)) = Some b
        \<and> bestSignal (snd (scanMarket e' assets' config' muted'
                              (fst (scanMarket e assets config muted lastInfo)))) = Some b'
        \<longrightarrow> \<not> (asset b' = asset b \<and> entryTimestamp b' = entryTimestamp b))"
proof (intro conjI allI impI)
  fix b
  assume "bestSignal (snd (scanMarket e assets config muted lastInfo)) = Some b"
  then have "\<not> alreadySent lastInfo b" by (rule selected_not_alreadySent)
  then show "lastInfo \<noteq> Some \<lparr> li_asset = asset b, li_entryTimestamp = entryTimestamp b \<rparr>"
    by (simp add: alreadySent_iff)
next
  assume a: "a \<in> set assets \<and> a_name a \<notin> set muted
        \<and> (cfg_marketType config = GERAL \<or> a_type a = cfg_marketType config)
        \<and> analyzeAsset e (a_name a) config = Some s \<and> 90 \<le> winrate s
        \<and> lastInfo = Some \<lparr> li_asset = asset s, li_entryTimestamp = entryTimestamp s \<rparr>"
  then have sent: "alreadySent lastInfo s" by (simp add: alreadySent_iff)
  from a sent show "candidate e config muted lastInfo a = None"
    by (intro repeat_is_discarded(2) [where assets = assets and s = s]) simp_all
  from a sent show "\<exists>l \<in> set (logs (snd (scanMarket e assets config muted lastInfo))).
              log_asset l = a_name a \<and> log_status l = Discarded
              \<and> log_reason l = Some JaEnviado"
    by (intro repeat_is_discarded(1) [where s = s]) simp_all
next
  assume c: "candidates e config muted lastInfo assets = []"
  then show "bestSignal (snd (scanMarket e assets config muted lastInfo)) = None"
    by (simp add: scanMarket_best firstMax_None_iff)
  from c show "fst (scanMarket e assets config muted lastInfo) = lastInfo"
    by (simp add: scanMarket_lastInfo firstMax_def)
next
  show "fst (scanMarket e assets config muted lastInfo)
       = (case bestSignal (snd (scanMarket e assets config muted lastInfo)) of
            None \<Rightarrow> lastInfo
          | Some b \<Rightarrow> Some \<lparr> li_asset = asset b, li_entryTimestamp = entryTimestamp b \<rparr>)"
    by (simp add: scanMarket_lastInfo scanMarket_best)
next
  assume "msg_type m \<noteq> ''SCAN_MARKET''"
  then show "onMessage e lastInfo m = (lastInfo, None)"
    by (simp add: onMessage_def)
next
  assume "msg_type m = ''SCAN_MARKET''"
  then show "onMessage e lastInfo m
          = (fst (scanMarket e ASSETS (msg_config m)
                    (case msg_mutedAssets m of None \<Rightarrow> [] | Some l \<Rightarrow> l) lastInfo),
             Some (snd (scanMarket e ASSETS (msg_config m)
                    (case msg_mutedAssets m of None \<Rightarrow> [] | Some l \<Rightarrow> l) lastInfo)))"
    by (simp add: onMessage_def Let_def)
next
  fix b b'
  assume a: "bestSignal (snd (scanMarket e assets config muted lastInfo)) = Some b
        \<and> bestSignal (snd (scanMarket e' assets' config' muted'
                              (fst (scanMarket e assets config muted lastInfo)))) = Some b'"
  then have l1: "fst (scanMarket e assets config muted lastInfo)
                   = Some \<lparr> li_asset = asset b, li_entryTimestamp = entryTimestamp b \<rparr>"
    by (simp add: scanMarket_lastInfo scanMarket_best)
  from a have "bestSignal (snd (scanMarket e' assets' config' muted'
                              (fst (scanMarket e assets config muted lastInfo)))) = Some b'"
    by simp
  then have "\<not> alreadySent (fst (scanMarket e assets config muted lastInfo)) b'"
    by (rule selected_not_alreadySent)
  then show "\<not> (asset b' = asset b \<and> entryTimestamp b' = entryTimestamp b)"
    unfolding l1 by (simp add: alreadySent_def)
qed

theorem repeat_suppression_witness:
  "\<exists>sb. bestSignal (snd (scanMarket exampleEnv [EURUSD, GBPUSD] configM1 [] None)) = Some sb
     \<and> asset sb = ''GBPUSD'' \<and> entryTimestamp sb = clock 10 9 0
     \<and> fst (scanMarket exampleEnv [EURUSD, GBPUSD] configM1 [] None)
         = Some \<lparr> li_asset = ''GBPUSD'', li_entryTimestamp = clock 10 9 0 \<rparr>
     \<and> bestSignal (snd (scanMarket exampleEnv [EURUSD, GBPUSD] configM1 [''EURUSD'']
                          (Some \<lparr> li_asset = ''GBPUSD'', li_entryTimestamp = clock 10 9 0 \<rparr>)))
         = None
     \<and> fst (scanMarket exampleEnv [EURUSD, GBPUSD] configM1 [''EURUSD'']
               (Some \<lparr> li_asset = ''GBPUSD'', li_entryTimestamp = clock 10 9 0 \<rparr>))
         = Some \<lparr> li_asset = ''GBPUSD'', li_entryTimestamp = clock 10 9 0 \<rparr>
     \<and> (\<exists>l \<in> set (logs (snd (scanMarket exampleEnv [EURUSD, GBPUSD] configM1 [''EURUSD'']
                   (Some \<lparr> li_asset = ''GBPUSD'', li_entryTimestamp = clock 10 9 0 \<rparr>)))).
           log_asset l = ''GBPUSD'' \<and> log_status l = Discarded
           \<and> log_reason l = Some JaEnviado)"
proof -
  let ?l1 = "Some \<lparr> li_asset = ''GBPUSD'', li_entryTimestamp = clock 10 9 0 \<rparr>"
  obtain sa where sa: "analyzeAsset exampleEnv ''EURUSD'' configM1 = Some sa"
    by (simp add: analyzeAsset_exampleEnv)
  obtain sb where sb: "analyzeAsset exampleEnv ''GBPUSD'' configM1 = Some sb"
    by (simp add: analyzeAsset_exampleEnv)
  have sched: "fst (entrySchedule 0 (clock 10 7 30) M1) = clock 10 9 0"
    by (simp add: entrySchedule_M1 clock_values)
  from sa have wa: "winrate sa = 91" by (auto simp: analyzeAsset_exampleEnv)
  from sb have pb: "winrate sb = 95" "asset sb = ''GBPUSD''" "entryTimestamp sb = clock 10 9 0"
    using sched by (auto simp: analyzeAsset_exampleEnv configM1_def)
  have names: "a_name EURUSD = ''EURUSD''" "a_name GBPUSD = ''GBPUSD''"
    by (simp_all add: EURUSD_def GBPUSD_def)
  have "candidate exampleEnv configM1 [] None EURUSD = Some sa"
    using sa by (intro candidate_exampleEnv) (simp_all add: names alreadySent_def)
  moreover have "candidate exampleEnv configM1 [] None GBPUSD = Some sb"
    using sb by (intro candidate_exampleEnv) (simp_all add: names alreadySent_def)
  ultimately have c1: "candidates exampleEnv configM1 [] None [EURUSD, GBPUSD] = [sa, sb]"
    by (rule candidates_pair)
  have best1: "bestSignal (snd (scanMarket exampleEnv [EURUSD, GBPUSD] configM1 [] None))
                 = Some sb"
    by (simp add: scanMarket_best c1 firstMax_pair wa pb)
  note rs = repeat_suppression [where e = exampleEnv and config = configM1]
  have l1: "fst (scanMarket exampleEnv [EURUSD, GBPUSD] configM1 [] None) = ?l1"
    using rs [where assets = "[EURUSD, GBPUSD]" and muted = "[]" and lastInfo = None,
        THEN conjunct2, THEN conjunct2, THEN conjunct2, THEN conjunct1]
    by (simp add: best1 pb)
  have pre: "GBPUSD \<in> set [EURUSD, GBPUSD] \<and> a_name GBPUSD \<notin> set [''EURUSD'']
        \<and> (cfg_marketType configM1 = GERAL \<or> a_type GBPUSD = cfg_marketType configM1)
        \<and> analyzeAsset exampleEnv (a_name GBPUSD) configM1 = Some sb \<and> 90 \<le> winrate sb
        \<and> ?l1 = Some \<lparr> li_asset = asset sb, li_entryTimestamp = entryTimestamp sb \<rparr>"
    using sb by (simp add: names pb configM1_def)
  from rs [where assets = "[EURUSD, GBPUSD]" and muted = "[''EURUSD'']" and lastInfo = ?l1
      and a = GBPUSD and s = sb, THEN conjunct2, THEN conjunct1, THEN mp, OF pre]
  have cB: "candidate exampleEnv configM1 [''EURUSD''] ?l1 GBPUSD = None"
    and logB: "\<exists>l \<in> set (logs (snd (scanMarket exampleEnv [EURUSD, GBPUSD] configM1
                                     [''EURUSD''] ?l1))).
           log_asset l = ''GBPUSD'' \<and> log_status l = Discarded
           \<and> log_reason l = Some JaEnviado"
    by (simp_all add: names)
  have "candidate exampleEnv configM1 [''EURUSD''] ?l1 EURUSD = None"
    by (simp add: candidate_def names)
  with cB have c2: "candidates exampleEnv configM1 [''EURUSD''] ?l1 [EURUSD, GBPUSD] = []"
    by (simp add: candidates_def List.map_filter_simps)
  from rs [where assets = "[EURUSD, GBPUSD]" and muted = "[''EURUSD'']" and lastInfo = ?l1,
      THEN conjunct2, THEN conjunct2, THEN conjunct1, THEN mp, OF c2]
  have none2: "bestSignal (snd (scanMarket exampleEnv [EURUSD, GBPUSD] configM1 [''EURUSD'']
                  ?l1)) = None"
    and keep2: "fst (scanMarket exampleEnv [EURUSD, GBPUSD] configM1 [''EURUSD''] ?l1) = ?l1"
    by simp_all
  from best1 pb(2,3) l1 none2 keep2 logB show ?thesis by blast
qed

end
